theory Spec2Isabelle
  imports Main
begin

section \<open>Values read from the JSON document\<close>

text \<open>
  A Python \<^verbatim>\<open>str\<close> is a sequence of code points; \<^verbatim>\<open>json.load\<close> also builds strings
  that hold a lone surrogate (from an escape such as \<^verbatim>\<open>\ud800\<close>), which no UTF-8
  stream accepts. The literal texts of the program are written with \<open>lit\<close>.
\<close>

type_synonym pystr = "nat list"

definition code :: "char \<Rightarrow> nat" where
  "code c = of_char c"

definition lit :: "string \<Rightarrow> pystr" where
  "lit s = map code s"

text \<open>
  \<^verbatim>\<open>json.load\<close> turns the document into Python objects: \<^verbatim>\<open>None\<close>, \<^verbatim>\<open>bool\<close>,
  \<^verbatim>\<open>int\<close>, \<^verbatim>\<open>str\<close>, \<^verbatim>\<open>list\<close> and \<^verbatim>\<open>dict\<close> (keys are strings, in insertion
  order). A \<^verbatim>\<open>dict\<close> is an association list; a lookup takes the first binding of
  the key. Numbers with a fraction or an exponent (Python \<^verbatim>\<open>float\<close>) are outside the
  model.
\<close>

datatype json =
    JNull
  | JBool bool
  | JInt int
  | JStr pystr
  | JArr "json list"
  | JObj "(pystr \<times> json) list"

text \<open>The exceptions of a run: the two that the projection of a record raises, with the
  name of the type of the offending object; the one an output stream raises on a text
  it cannot encode, with that text; the one \<^verbatim>\<open>open\<close> raises for a missing file;
  and whatever \<^verbatim>\<open>json.load\<close> raises on a file it rejects, with its message.\<close>

datatype py_error =
    AttributeError string string
  | TypeError_not_iterable string
  | UnicodeEncodeError pystr
  | FileNotFoundError
  | JsonLoadError string

definition JSON_FILE_PATH :: string where
  "JSON_FILE_PATH = ''questions.json''"

definition CSV_FILE_PATH :: string where
  "CSV_FILE_PATH = ''questions_for_supabase.csv''"

definition dquote :: nat where
  "dquote = code (CHR 0x22)"

definition squote :: nat where
  "squote = code (CHR 0x27)"

definition backslash :: nat where
  "backslash = code (CHR 0x5C)"

fun type_name :: "json \<Rightarrow> string" where
  "type_name JNull = ''NoneType''"
| "type_name (JBool b) = ''bool''"
| "type_name (JInt i) = ''int''"
| "type_name (JStr s) = ''str''"
| "type_name (JArr xs) = ''list''"
| "type_name (JObj kvs) = ''dict''"

text \<open>Truth value of an object, as \<^verbatim>\<open>not x\<close> tests it.\<close>

fun truthy :: "json \<Rightarrow> bool" where
  "truthy JNull = False"
| "truthy (JBool b) = b"
| "truthy (JInt i) = (i \<noteq> 0)"
| "truthy (JStr s) = (s \<noteq> [])"
| "truthy (JArr xs) = (xs \<noteq> [])"
| "truthy (JObj kvs) = (kvs \<noteq> [])"

text \<open>\<^verbatim>\<open>for item in x\<close>: a list yields its elements, a string its characters as
  one-character strings, a dict its keys; anything else raises \<^verbatim>\<open>TypeError\<close>.\<close>

fun py_iter :: "json \<Rightarrow> py_error + json list" where
  "py_iter (JArr xs) = Inr xs"
| "py_iter (JStr s) = Inr (map (\<lambda>c. JStr [c]) s)"
| "py_iter (JObj kvs) = Inr (map (\<lambda>kv. JStr (fst kv)) kvs)"
| "py_iter v = Inl (TypeError_not_iterable (type_name v))"

subsection \<open>Numbers as text\<close>

definition digit_char :: "nat \<Rightarrow> nat" where
  "digit_char n = lit ''0123456789abcdef'' ! n"

function dec_nat :: "nat \<Rightarrow> pystr" where
  "dec_nat n = (if n < 10 then [digit_char n] else dec_nat (n div 10) @ [digit_char (n mod 10)])"
  by pat_completeness auto
termination
  by (relation "measure id") auto

declare dec_nat.simps [simp del]

definition dec_int :: "int \<Rightarrow> pystr" where
  "dec_int i = (if i < 0 then code (CHR ''-'') # dec_nat (nat (- i)) else dec_nat (nat i))"

definition hex2 :: "nat \<Rightarrow> pystr" where
  "hex2 n = [digit_char (n div 16 mod 16), digit_char (n mod 16)]"

definition hex4 :: "nat \<Rightarrow> pystr" where
  "hex4 n = hex2 (n div 256) @ hex2 n"

definition hex8 :: "nat \<Rightarrow> pystr" where
  "hex8 n = hex4 (n div 65536) @ hex4 n"

subsection \<open>Encoding a text as UTF-8\<close>

text \<open>The output file is opened with \<^verbatim>\<open>utf-8-sig\<close>, and standard output is taken to
  encode as UTF-8 with the strict error handler, as it does by default. Either stream
  refuses a text exactly when it holds a surrogate code point, and raises
  \<^verbatim>\<open>UnicodeEncodeError\<close> before any part of the text is written. The message names the
  first run of surrogates: its position, and the character when the run is one long.\<close>

definition is_surrogate :: "nat \<Rightarrow> bool" where
  "is_surrogate c = (0xD800 \<le> c \<and> c \<le> 0xDFFF)"

definition encodable :: "pystr \<Rightarrow> bool" where
  "encodable s = list_all (\<lambda>c. \<not> is_surrogate c) s"

definition first_bad :: "pystr \<Rightarrow> nat" where
  "first_bad s = length (takeWhile (\<lambda>c. \<not> is_surrogate c) s)"

definition bad_run :: "pystr \<Rightarrow> nat" where
  "bad_run s = length (takeWhile is_surrogate (drop (first_bad s) s))"

definition encode_error_text :: "pystr \<Rightarrow> pystr" where
  "encode_error_text s =
    (if bad_run s = 1 then
       lit ([CHR 0x27] @ ''utf-8'' @ [CHR 0x27] @ '' codec can't encode character ''
            @ [CHR 0x27, CHR 0x5C] @ ''u'')
       @ hex4 (s ! first_bad s)
       @ lit ([CHR 0x27] @ '' in position '') @ dec_nat (first_bad s)
       @ lit '': surrogates not allowed''
     else
       lit ([CHR 0x27] @ ''utf-8'' @ [CHR 0x27] @ '' codec can't encode characters in position '')
       @ dec_nat (first_bad s) @ lit ''-'' @ dec_nat (first_bad s + bad_run s - 1)
       @ lit '': surrogates not allowed'')"

text \<open>\<^verbatim>\<open>str(e)\<close> for the exceptions.\<close>

fun error_text :: "py_error \<Rightarrow> pystr" where
  "error_text (AttributeError t a) =
     lit ([CHR 0x27] @ t @ [CHR 0x27] @ '' object has no attribute '' @ [CHR 0x27] @ a
          @ [CHR 0x27])"
| "error_text (TypeError_not_iterable t) =
     lit ([CHR 0x27] @ t @ [CHR 0x27] @ '' object is not iterable'')"
| "error_text (UnicodeEncodeError s) = encode_error_text s"
| "error_text FileNotFoundError =
     lit (''[Errno 2] No such file or directory: '' @ [CHR 0x27] @ JSON_FILE_PATH @ [CHR 0x27])"
| "error_text (JsonLoadError msg) = lit msg"

text \<open>A write of one text to a UTF-8 stream: \<^verbatim>\<open>print(line)\<close>, or the one call of
  \<^verbatim>\<open>write\<close> that the CSV writer makes for a row.\<close>

definition stream_write :: "pystr \<Rightarrow> py_error + unit" where
  "stream_write s = (if encodable s then Inr () else Inl (UnicodeEncodeError s))"

subsection \<open>Text of a value: \<^verbatim>\<open>str\<close> and \<^verbatim>\<open>repr\<close>\<close>

text \<open>\<^verbatim>\<open>str.isprintable\<close> of one code point. Below 256 it is written out, and a
  surrogate is never printable; for the other code points it is a table of the Unicode
  database of the interpreter, which the functions below take as the parameter
  \<open>tbl\<close>.\<close>

definition printable :: "(nat \<Rightarrow> bool) \<Rightarrow> nat \<Rightarrow> bool" where
  "printable tbl c =
    (if c < 256 then (32 \<le> c \<and> c \<le> 126) \<or> (161 \<le> c \<and> c \<noteq> 173)
     else if is_surrogate c then False
     else tbl c)"

text \<open>A table for the closed instances further down, whose inputs hold no code point
  from 256 on other than surrogates: it calls none of them printable.\<close>

definition plain_table :: "nat \<Rightarrow> bool" where
  "plain_table c = False"

definition repr_char :: "(nat \<Rightarrow> bool) \<Rightarrow> nat \<Rightarrow> nat \<Rightarrow> pystr" where
  "repr_char tbl q c =
    (if c = q \<or> c = backslash then [backslash, c]
     else if c = 9 then [backslash, code (CHR ''t'')]
     else if c = 10 then [backslash, code (CHR ''n'')]
     else if c = 13 then [backslash, code (CHR ''r'')]
     else if printable tbl c then [c]
     else if c < 256 then [backslash, code (CHR ''x'')] @ hex2 c
     else if c < 65536 then [backslash, code (CHR ''u'')] @ hex4 c
     else [backslash, code (CHR ''U'')] @ hex8 c)"

text \<open>\<^verbatim>\<open>repr\<close> of a string: single quotes, unless the string holds a single quote
  and no double quote.\<close>

definition repr_str :: "(nat \<Rightarrow> bool) \<Rightarrow> pystr \<Rightarrow> pystr" where
  "repr_str tbl s =
    (let q = (if squote \<in> set s \<and> dquote \<notin> set s then dquote else squote)
     in [q] @ concat (map (repr_char tbl q) s) @ [q])"

text \<open>\<^verbatim>\<open>sep.join(parts)\<close>.\<close>

fun join :: "pystr \<Rightarrow> pystr list \<Rightarrow> pystr" where
  "join sep [] = []"
| "join sep [p] = p"
| "join sep (p # ps) = p @ sep @ join sep ps"

fun py_repr :: "(nat \<Rightarrow> bool) \<Rightarrow> json \<Rightarrow> pystr"
  and py_repr_items :: "(nat \<Rightarrow> bool) \<Rightarrow> json list \<Rightarrow> pystr list"
  and py_repr_pairs :: "(nat \<Rightarrow> bool) \<Rightarrow> (pystr \<times> json) list \<Rightarrow> pystr list" where
  "py_repr tbl JNull = lit ''None''"
| "py_repr tbl (JBool b) = (if b then lit ''True'' else lit ''False'')"
| "py_repr tbl (JInt i) = dec_int i"
| "py_repr tbl (JStr s) = repr_str tbl s"
| "py_repr tbl (JArr xs) = lit ''['' @ join (lit '', '') (py_repr_items tbl xs) @ lit '']''"
| "py_repr tbl (JObj kvs) = lit ''{'' @ join (lit '', '') (py_repr_pairs tbl kvs) @ lit ''}''"
| "py_repr_items tbl [] = []"
| "py_repr_items tbl (x # xs) = py_repr tbl x # py_repr_items tbl xs"
| "py_repr_pairs tbl [] = []"
| "py_repr_pairs tbl (kv # kvs) =
     (repr_str tbl (fst kv) @ lit '': '' @ py_repr tbl (snd kv)) # py_repr_pairs tbl kvs"

text \<open>\<^verbatim>\<open>str(x)\<close>: a string is itself, everything else is its \<^verbatim>\<open>repr\<close>.\<close>

definition py_str :: "(nat \<Rightarrow> bool) \<Rightarrow> json \<Rightarrow> pystr" where
  "py_str tbl v = (case v of JStr s \<Rightarrow> s | _ \<Rightarrow> py_repr tbl v)"

section \<open>The array-literal encoder\<close>

text \<open>\<^verbatim>\<open>s.replace(old, new)\<close> where \<^verbatim>\<open>old\<close> is one character, as at both call
  sites.\<close>

definition str_replace :: "nat \<Rightarrow> pystr \<Rightarrow> pystr \<Rightarrow> pystr" where
  "str_replace old new s = concat (map (\<lambda>c. if c = old then new else [c]) s)"

text \<open>The body of the loop of \<^verbatim>\<open>format_pg_array_correctly\<close>: the text of the item,
  backslashes doubled, then double quotes escaped, then wrapped in double quotes.\<close>

definition format_item :: "(nat \<Rightarrow> bool) \<Rightarrow> json \<Rightarrow> pystr" where
  "format_item tbl item =
    (let item_str = py_str tbl item;
         item_str = str_replace dquote [backslash, dquote]
                      (str_replace backslash [backslash, backslash] item_str)
     in [dquote] @ item_str @ [dquote])"

definition format_pg_array_correctly :: "(nat \<Rightarrow> bool) \<Rightarrow> json \<Rightarrow> py_error + pystr" where
  "format_pg_array_correctly tbl py_list =
    (if \<not> truthy py_list then Inr (lit ''{}'')
     else case py_iter py_list of
            Inl e \<Rightarrow> Inl e
          | Inr items \<Rightarrow>
              Inr (lit ''{'' @ join (lit '','') (map (format_item tbl) items) @ lit ''}''))"

section \<open>The nested-object encoder: \<^verbatim>\<open>json.dumps\<close>\<close>

text \<open>\<^verbatim>\<open>json.dumps\<close> with its defaults: separators \<^verbatim>\<open>", "\<close> and \<^verbatim>\<open>": "\<close>, and
  \<^verbatim>\<open>ensure_ascii\<close>, under which every character outside the range from space
  to tilde is written as an escape, a code point from 65536 on as the escapes of its
  two UTF-16 surrogates.\<close>

definition dumps_char :: "nat \<Rightarrow> pystr" where
  "dumps_char c =
    (if c = dquote \<or> c = backslash then [backslash, c]
     else if c = 10 then [backslash, code (CHR ''n'')]
     else if c = 13 then [backslash, code (CHR ''r'')]
     else if c = 9 then [backslash, code (CHR ''t'')]
     else if c = 12 then [backslash, code (CHR ''f'')]
     else if c = 8 then [backslash, code (CHR ''b'')]
     else if 32 \<le> c \<and> c \<le> 126 then [c]
     else if c < 65536 then [backslash, code (CHR ''u'')] @ hex4 c
     else [backslash, code (CHR ''u'')] @ hex4 (0xD800 + (c - 65536) div 1024 mod 1024)
          @ [backslash, code (CHR ''u'')] @ hex4 (0xDC00 + (c - 65536) mod 1024))"

definition dumps_str :: "pystr \<Rightarrow> pystr" where
  "dumps_str s = [dquote] @ concat (map dumps_char s) @ [dquote]"

fun json_dumps :: "json \<Rightarrow> pystr"
  and json_dumps_items :: "json list \<Rightarrow> pystr list"
  and json_dumps_pairs :: "(pystr \<times> json) list \<Rightarrow> pystr list" where
  "json_dumps JNull = lit ''null''"
| "json_dumps (JBool b) = (if b then lit ''true'' else lit ''false'')"
| "json_dumps (JInt i) = dec_int i"
| "json_dumps (JStr s) = dumps_str s"
| "json_dumps (JArr xs) = lit ''['' @ join (lit '', '') (json_dumps_items xs) @ lit '']''"
| "json_dumps (JObj kvs) = lit ''{'' @ join (lit '', '') (json_dumps_pairs kvs) @ lit ''}''"
| "json_dumps_items [] = []"
| "json_dumps_items (x # xs) = json_dumps x # json_dumps_items xs"
| "json_dumps_pairs [] = []"
| "json_dumps_pairs (kv # kvs) =
     (dumps_str (fst kv) @ lit '': '' @ json_dumps (snd kv)) # json_dumps_pairs kvs"

section \<open>The row builder\<close>

text \<open>\<^verbatim>\<open>obj.get(key, dflt)\<close>: only a dict has the method; on any other object the
  attribute lookup raises \<^verbatim>\<open>AttributeError\<close>.\<close>

definition py_get :: "json \<Rightarrow> pystr \<Rightarrow> json \<Rightarrow> py_error + json" where
  "py_get obj key dflt =
    (case obj of
       JObj kvs \<Rightarrow> Inr (case map_of kvs key of None \<Rightarrow> dflt | Some v \<Rightarrow> v)
     | _ \<Rightarrow> Inl (AttributeError (type_name obj) ''get''))"

text \<open>Sequencing of two steps either of which may raise.\<close>

definition bind_err :: "'e + 'a \<Rightarrow> ('a \<Rightarrow> 'e + 'b) \<Rightarrow> 'e + 'b" where
  "bind_err m f = (case m of Inl e \<Rightarrow> Inl e | Inr a \<Rightarrow> f a)"

text \<open>\<^verbatim>\<open>q.get(outer, {}).get(inner)\<close>.\<close>

definition nested_get :: "json \<Rightarrow> pystr \<Rightarrow> pystr \<Rightarrow> py_error + json" where
  "nested_get q outer inner =
     bind_err (py_get q outer (JObj [])) (\<lambda>m. py_get m inner JNull)"

definition header :: "pystr list" where
  "header = map lit
    [''v1_id'', ''subject'', ''topic'', ''subTopic'', ''examName'', ''examYear'', ''examDateShift'',
     ''difficulty'', ''questionType'', ''question'', ''question_hi'',
     ''options'', ''options_hi'', ''correct'', ''tags'', ''explanation'']"

text \<open>A row is the sequence of cell values handed to the underlying writer.
  \<^verbatim>\<open>DictWriter.writerow\<close> orders the values of the dict by \<^verbatim>\<open>fieldnames\<close>, with the
  empty string for a missing key; \<^verbatim>\<open>writeheader\<close> writes the field names
  themselves.\<close>

type_synonym csv_row = "json list"

definition dict_to_list :: "pystr list \<Rightarrow> (pystr \<times> json) list \<Rightarrow> csv_row" where
  "dict_to_list fieldnames rowdict =
     map (\<lambda>k. case map_of rowdict k of None \<Rightarrow> JStr [] | Some v \<Rightarrow> v) fieldnames"

definition header_row :: csv_row where
  "header_row = dict_to_list header (zip header (map JStr header))"

text \<open>The argument of \<^verbatim>\<open>writer.writerow\<close>, in the order in which Python evaluates the
  body of the \<^verbatim>\<open>try\<close>: the three array fields, the explanation, then the entries of
  the dict from top to bottom. The result is the row handed to the writer, or the first
  exception raised.\<close>

definition build_row :: "(nat \<Rightarrow> bool) \<Rightarrow> json \<Rightarrow> py_error + csv_row" where
  "build_row tbl q =
    bind_err (bind_err (py_get q (lit ''options'') (JArr [])) (format_pg_array_correctly tbl))
      (\<lambda>options_pg.
    bind_err (bind_err (py_get q (lit ''options_hi'') (JArr [])) (format_pg_array_correctly tbl))
      (\<lambda>options_hi_pg.
    bind_err (bind_err (py_get q (lit ''tags'') (JArr [])) (format_pg_array_correctly tbl))
      (\<lambda>tags_pg.
    bind_err (py_get q (lit ''explanation'') (JObj [])) (\<lambda>explanation.
    let explanation_jsonb = json_dumps explanation in
    bind_err (py_get q (lit ''id'') JNull) (\<lambda>v1_id.
    bind_err (nested_get q (lit ''classification'') (lit ''subject'')) (\<lambda>subject.
    bind_err (nested_get q (lit ''classification'') (lit ''topic'')) (\<lambda>topic.
    bind_err (nested_get q (lit ''classification'') (lit ''subTopic'')) (\<lambda>subTopic.
    bind_err (nested_get q (lit ''sourceInfo'') (lit ''examName'')) (\<lambda>examName.
    bind_err (nested_get q (lit ''sourceInfo'') (lit ''examYear'')) (\<lambda>examYear.
    bind_err (nested_get q (lit ''sourceInfo'') (lit ''examDateShift'')) (\<lambda>examDateShift.
    bind_err (nested_get q (lit ''properties'') (lit ''difficulty'')) (\<lambda>difficulty.
    bind_err (nested_get q (lit ''properties'') (lit ''questionType'')) (\<lambda>questionType.
    bind_err (py_get q (lit ''question'') JNull) (\<lambda>question.
    bind_err (py_get q (lit ''question_hi'') JNull) (\<lambda>question_hi.
    bind_err (py_get q (lit ''correct'') JNull) (\<lambda>correct.
    Inr (dict_to_list header
      [(lit ''v1_id'', v1_id),
       (lit ''subject'', subject),
       (lit ''topic'', topic),
       (lit ''subTopic'', subTopic),
       (lit ''examName'', examName),
       (lit ''examYear'', examYear),
       (lit ''examDateShift'', examDateShift),
       (lit ''difficulty'', difficulty),
       (lit ''questionType'', questionType),
       (lit ''question'', question),
       (lit ''question_hi'', question_hi),
       (lit ''options'', JStr options_pg),
       (lit ''options_hi'', JStr options_hi_pg),
       (lit ''correct'', correct),
       (lit ''tags'', JStr tags_pg),
       (lit ''explanation'', JStr explanation_jsonb)])))))))))))))))))"

subsection \<open>Writing a row\<close>

text \<open>The CSV writer turns each cell into text (nothing for \<^verbatim>\<open>None\<close>, \<^verbatim>\<open>str\<close> of the
  value otherwise), encloses a text in double quotes when it holds a comma, a double
  quote, a carriage return or a line feed, doubling its double quotes, joins the cells
  with commas, ends the line with carriage return and line feed, and hands the line to
  the file in one call of \<^verbatim>\<open>write\<close>. That call raises when the line cannot be
  encoded, and then nothing of the row reaches the file.\<close>

definition cell_text :: "(nat \<Rightarrow> bool) \<Rightarrow> json \<Rightarrow> pystr" where
  "cell_text tbl v = (case v of JNull \<Rightarrow> [] | _ \<Rightarrow> py_str tbl v)"

definition csv_field :: "pystr \<Rightarrow> pystr" where
  "csv_field s =
    (if list_ex (\<lambda>c. c = code (CHR '','') \<or> c = dquote \<or> c = 13 \<or> c = 10) s
     then [dquote] @ str_replace dquote [dquote, dquote] s @ [dquote]
     else s)"

definition csv_line :: "(nat \<Rightarrow> bool) \<Rightarrow> csv_row \<Rightarrow> pystr" where
  "csv_line tbl row = join (lit '','') (map (\<lambda>v. csv_field (cell_text tbl v)) row) @ [13, 10]"

definition writerow :: "(nat \<Rightarrow> bool) \<Rightarrow> csv_row \<Rightarrow> py_error + unit" where
  "writerow tbl row = stream_write (csv_line tbl row)"

text \<open>The body of the \<^verbatim>\<open>try\<close> of the loop up to the end of \<^verbatim>\<open>writer.writerow\<close>:
  the row that was written, or the exception raised.\<close>

definition try_body :: "(nat \<Rightarrow> bool) \<Rightarrow> json \<Rightarrow> py_error + csv_row" where
  "try_body tbl q =
     bind_err (build_row tbl q) (\<lambda>row. bind_err (writerow tbl row) (\<lambda>u. Inr row))"

section \<open>The driver\<close>

definition starting_line :: pystr where
  "starting_line = lit (''Starting conversion of '' @ JSON_FILE_PATH @ '' with CORRECTED script...'')"

definition error_processing_line :: "(nat \<Rightarrow> bool) \<Rightarrow> json \<Rightarrow> py_error \<Rightarrow> pystr" where
  "error_processing_line tbl ident e =
     lit ''Error processing question '' @ py_str tbl ident @ lit '': '' @ error_text e"

definition success_line :: "nat \<Rightarrow> pystr" where
  "success_line n =
     lit ''Successfully converted '' @ dec_nat n
       @ lit ('' questions to '' @ CSV_FILE_PATH @ '' using the correct format.'')"

definition not_found_line :: pystr where
  "not_found_line = lit (''Error: '' @ JSON_FILE_PATH @ '' not found.'')"

definition unexpected_line :: "pystr \<Rightarrow> pystr" where
  "unexpected_line msg = lit ''An unexpected error occurred: '' @ msg"

text \<open>The state of the loop: the lines printed so far, the rows of the CSV file
  written so far, and the counter.\<close>

record conv_state =
  console :: "pystr list"
  csv :: "csv_row list"
  count :: nat

text \<open>The \<^verbatim>\<open>for\<close> loop. A record whose projection or whose row raises is reported
  and skipped. The report itself can raise, in \<^verbatim>\<open>q.get('id')\<close> when the element is
  not a dict and in \<^verbatim>\<open>print\<close> when the line cannot be encoded; that exception
  leaves the loop, and the second component holds it.\<close>

fun process_questions ::
  "(nat \<Rightarrow> bool) \<Rightarrow> json list \<Rightarrow> conv_state \<Rightarrow> conv_state \<times> py_error option" where
  "process_questions tbl [] s = (s, None)"
| "process_questions tbl (q # qs) s =
    (case try_body tbl q of
       Inr row \<Rightarrow>
         process_questions tbl qs (s\<lparr>csv := csv s @ [row], count := count s + 1\<rparr>)
     | Inl e \<Rightarrow>
         (case bind_err (py_get q (lit ''id'') JNull)
                 (\<lambda>ident. bind_err (stream_write (error_processing_line tbl ident e))
                    (\<lambda>u. Inr (error_processing_line tbl ident e))) of
            Inr line \<Rightarrow> process_questions tbl qs (s\<lparr>console := console s @ [line]\<rparr>)
          | Inl e' \<Rightarrow> (s, Some e')))"

text \<open>What the program finds at \<^verbatim>\<open>JSON_FILE_PATH\<close>: no file, a file that
  \<^verbatim>\<open>json.load\<close> rejects (with the text of its exception), or a document. Failures
  to open the output file are outside the model.\<close>

datatype input_file =
    NotFound
  | Unparsable string
  | Document json

text \<open>The outcome of a run: the lines printed, and the rows of the CSV file, or
  \<open>None\<close> when the output file was never opened.\<close>

record run =
  printed :: "pystr list"
  written :: "csv_row list option"

text \<open>\<^verbatim>\<open>open(JSON_FILE_PATH, 'r')\<close>: the stream, as what \<^verbatim>\<open>json.load\<close> will make of it,
  or \<^verbatim>\<open>FileNotFoundError\<close>.\<close>

definition open_input :: "input_file \<Rightarrow> py_error + (string + json)" where
  "open_input f =
    (case f of
       NotFound \<Rightarrow> Inl FileNotFoundError
     | Unparsable msg \<Rightarrow> Inr (Inl msg)
     | Document d \<Rightarrow> Inr (Inr d))"

definition json_load :: "string + json \<Rightarrow> py_error + json" where
  "json_load f_in = (case f_in of Inl msg \<Rightarrow> Inl (JsonLoadError msg) | Inr d \<Rightarrow> Inr d)"

text \<open>The body of the outer \<^verbatim>\<open>try\<close>, step by step: the input is opened, then the
  output, which empties it; the document is loaded; the header is written; the loop
  runs; the completion line is printed. The result is the state reached and the
  exception that ended the body, if any.\<close>

definition conversion :: "(nat \<Rightarrow> bool) \<Rightarrow> input_file \<Rightarrow> run \<Rightarrow> run \<times> py_error option" where
  "conversion tbl inp w =
    (case open_input inp of
       Inl e \<Rightarrow> (w, Some e)
     | Inr f_in \<Rightarrow>
         (let w = w\<lparr>written := Some []\<rparr> in
          case json_load f_in of
            Inl e \<Rightarrow> (w, Some e)
          | Inr questions_data \<Rightarrow>
              (case writerow tbl header_row of
                 Inl e \<Rightarrow> (w, Some e)
               | Inr u \<Rightarrow>
                   (let w = w\<lparr>written := Some [header_row]\<rparr> in
                    case py_iter questions_data of
                      Inl e \<Rightarrow> (w, Some e)
                    | Inr qs \<Rightarrow>
                        (case process_questions tbl qs
                                \<lparr>console = printed w, csv = [header_row], count = 0\<rparr> of
                           (s, Some e) \<Rightarrow>
                             (\<lparr>printed = console s, written = Some (csv s)\<rparr>, Some e)
                         | (s, None) \<Rightarrow>
                             (\<lparr>printed = console s @ [success_line (count s)],
                               written = Some (csv s)\<rparr>, None))))))"

text \<open>The program: the starting line, the body, and the two \<^verbatim>\<open>except\<close> clauses in
  their order.\<close>

definition main :: "(nat \<Rightarrow> bool) \<Rightarrow> input_file \<Rightarrow> run" where
  "main tbl inp =
    (case conversion tbl inp \<lparr>printed = [starting_line], written = None\<rparr> of
       (w, None) \<Rightarrow> w
     | (w, Some e) \<Rightarrow>
         (if e = FileNotFoundError then w\<lparr>printed := printed w @ [not_found_line]\<rparr>
          else w\<lparr>printed := printed w @ [unexpected_line (error_text e)]\<rparr>))"

section \<open>The array-literal parser of the target database\<close>

text \<open>Modelled from the spec: the parser of the target database is not part of the
  repository. The spec describes what it does to an array literal of quoted elements:
  the literal is enclosed in braces, the elements are separated by commas, each element
  is enclosed in double quotes, and inside the quotes a backslash makes the next
  character (a backslash or a double quote) part of the element. The parser is a scan
  over the characters with the state below, \<open>cur\<close> the element being read and \<open>acc\<close>
  the elements read so far; it returns \<open>None\<close> on any other text.\<close>

datatype scan_state = AtOpen | AtFirst | AtElem | InQuote | AfterBackslash | AfterElem | AtEnd

fun pg_scan :: "scan_state \<Rightarrow> pystr \<Rightarrow> pystr list \<Rightarrow> pystr \<Rightarrow> pystr list option" where
  "pg_scan st cur acc [] = (if st = AtEnd then Some acc else None)"
| "pg_scan st cur acc (c # cs) =
    (case st of
       AtOpen \<Rightarrow> if c = code (CHR ''{'') then pg_scan AtFirst [] acc cs else None
     | AtFirst \<Rightarrow>
         if c = code (CHR ''}'') then pg_scan AtEnd [] acc cs
         else if c = dquote then pg_scan InQuote [] acc cs
         else None
     | AtElem \<Rightarrow> if c = dquote then pg_scan InQuote [] acc cs else None
     | InQuote \<Rightarrow>
         if c = backslash then pg_scan AfterBackslash cur acc cs
         else if c = dquote then pg_scan AfterElem [] (acc @ [cur]) cs
         else pg_scan InQuote (cur @ [c]) acc cs
     | AfterBackslash \<Rightarrow> pg_scan InQuote (cur @ [c]) acc cs
     | AfterElem \<Rightarrow>
         if c = code (CHR '','') then pg_scan AtElem [] acc cs
         else if c = code (CHR ''}'') then pg_scan AtEnd [] acc cs
         else None
     | AtEnd \<Rightarrow> None)"

definition pg_array_parse :: "pystr \<Rightarrow> pystr list option" where
  "pg_array_parse s = pg_scan AtOpen [] [] s"

text \<open>The two replacements of \<^const>\<open>format_item\<close> on their own, for the proofs.\<close>

definition escape_item :: "pystr \<Rightarrow> pystr" where
  "escape_item s =
     str_replace dquote [backslash, dquote] (str_replace backslash [backslash, backslash] s)"

section \<open>Reading a JSON text back\<close>

text \<open>\<^verbatim>\<open>json.loads\<close> of the standard library, for the values of the model: numbers are
  integers (a fraction or an exponent is refused). It serves to state that a text
  written by \<^const>\<open>json_dumps\<close> parses back to a value. The escapes of a high and a
  low surrogate in a row give one code point, and a key that occurs again in an object
  takes the later value at its first place. The parser descends with a fuel that bounds
  the nesting; \<open>json_loads\<close> starts it with more fuel than the text has characters.\<close>

definition is_ws :: "nat \<Rightarrow> bool" where
  "is_ws c = (c = 32 \<or> c = 9 \<or> c = 10 \<or> c = 13)"

definition skip_ws :: "pystr \<Rightarrow> pystr" where
  "skip_ws s = dropWhile is_ws s"

definition is_digit :: "nat \<Rightarrow> bool" where
  "is_digit c = (48 \<le> c \<and> c \<le> 57)"

definition hex_val :: "nat \<Rightarrow> nat option" where
  "hex_val c =
    (if 48 \<le> c \<and> c \<le> 57 then Some (c - 48)
     else if 97 \<le> c \<and> c \<le> 102 then Some (c - 87)
     else if 65 \<le> c \<and> c \<le> 70 then Some (c - 55)
     else None)"

definition unescape :: "nat \<Rightarrow> nat option" where
  "unescape e =
    (if e = dquote \<or> e = backslash \<or> e = code (CHR ''/'') then Some e
     else if e = code (CHR ''b'') then Some 8
     else if e = code (CHR ''f'') then Some 12
     else if e = code (CHR ''n'') then Some 10
     else if e = code (CHR ''r'') then Some 13
     else if e = code (CHR ''t'') then Some 9
     else None)"

definition read_hex4 :: "pystr \<Rightarrow> nat option" where
  "read_hex4 hs =
    (case map hex_val hs of
       [Some a, Some b, Some c, Some d] \<Rightarrow> Some (((a * 16 + b) * 16 + c) * 16 + d)
     | _ \<Rightarrow> None)"

fun read_string :: "pystr \<Rightarrow> (pystr \<times> pystr) option" where
  "read_string [] = None"
| "read_string (c # cs) =
    (if c = dquote then Some ([], cs)
     else if c < 32 then None
     else if c = backslash then
       (case cs of
          [] \<Rightarrow> None
        | e # r \<Rightarrow>
            if e = code (CHR ''u'') then
              (case read_hex4 (take 4 r) of
                 None \<Rightarrow> None
               | Some hi \<Rightarrow>
                   if 0xD800 \<le> hi \<and> hi \<le> 0xDBFF
                      \<and> take 2 (drop 4 r) = [backslash, code (CHR ''u'')] then
                     (case read_hex4 (take 4 (drop 6 r)) of
                        None \<Rightarrow> None
                      | Some lo \<Rightarrow>
                          if 0xDC00 \<le> lo \<and> lo \<le> 0xDFFF then
                            map_option
                              (apfst ((#) (0x10000 + (hi - 0xD800) * 1024 + (lo - 0xDC00))))
                              (read_string (drop 10 r))
                          else map_option (apfst ((#) hi)) (read_string (drop 4 r)))
                   else map_option (apfst ((#) hi)) (read_string (drop 4 r)))
            else
              (case unescape e of
                 None \<Rightarrow> None
               | Some ch \<Rightarrow> map_option (apfst ((#) ch)) (read_string r)))
     else map_option (apfst ((#) c)) (read_string cs))"

definition read_int :: "pystr \<Rightarrow> (nat \<times> pystr) option" where
  "read_int s =
    (let ds = takeWhile is_digit s; r = dropWhile is_digit s in
     if ds = [] then None
     else if hd ds = 48 \<and> length ds > 1 then None
     else if r \<noteq> [] \<and> hd r \<in> set (lit ''.eE'') then None
     else Some (foldl (\<lambda>n c. 10 * n + (c - 48)) 0 ds, r))"

fun dict_set :: "(pystr \<times> json) list \<Rightarrow> pystr \<Rightarrow> json \<Rightarrow> (pystr \<times> json) list" where
  "dict_set [] k v = [(k, v)]"
| "dict_set (kv # kvs) k v = (if fst kv = k then (k, v) # kvs else kv # dict_set kvs k v)"

definition dict_of_pairs :: "(pystr \<times> json) list \<Rightarrow> json" where
  "dict_of_pairs ps = JObj (foldl (\<lambda>d kv. dict_set d (fst kv) (snd kv)) [] ps)"

fun parse_value :: "nat \<Rightarrow> pystr \<Rightarrow> (json \<times> pystr) option"
  and parse_items :: "nat \<Rightarrow> pystr \<Rightarrow> (json list \<times> pystr) option"
  and parse_members :: "nat \<Rightarrow> pystr \<Rightarrow> ((pystr \<times> json) list \<times> pystr) option" where
  "parse_value 0 s = None"
| "parse_value (Suc n) s =
    (case skip_ws s of
       [] \<Rightarrow> None
     | c # cs \<Rightarrow>
         if c = code (CHR ''{'') then
           (case skip_ws cs of
              [] \<Rightarrow> None
            | d # ds \<Rightarrow>
                if d = code (CHR ''}'') then Some (JObj [], ds)
                else map_option (apfst dict_of_pairs) (parse_members n (d # ds)))
         else if c = code (CHR ''['') then
           (case skip_ws cs of
              [] \<Rightarrow> None
            | d # ds \<Rightarrow>
                if d = code (CHR '']'') then Some (JArr [], ds)
                else map_option (apfst JArr) (parse_items n (d # ds)))
         else if c = dquote then map_option (apfst JStr) (read_string cs)
         else if c = code (CHR ''-'') then
           map_option (apfst (\<lambda>m. JInt (- int m))) (read_int cs)
         else if is_digit c then map_option (apfst (\<lambda>m. JInt (int m))) (read_int (c # cs))
         else if take 4 (c # cs) = lit ''null'' then Some (JNull, drop 4 (c # cs))
         else if take 4 (c # cs) = lit ''true'' then Some (JBool True, drop 4 (c # cs))
         else if take 5 (c # cs) = lit ''false'' then Some (JBool False, drop 5 (c # cs))
         else None)"
| "parse_items 0 s = None"
| "parse_items (Suc n) s =
    (case parse_value n s of
       None \<Rightarrow> None
     | Some (v, r) \<Rightarrow>
         (case skip_ws r of
            [] \<Rightarrow> None
          | c # cs \<Rightarrow>
              if c = code (CHR '','') then map_option (apfst ((#) v)) (parse_items n cs)
              else if c = code (CHR '']'') then Some ([v], cs)
              else None))"
| "parse_members 0 s = None"
| "parse_members (Suc n) s =
    (case skip_ws s of
       [] \<Rightarrow> None
     | c # cs \<Rightarrow>
         if c = dquote then
           (case read_string cs of
              None \<Rightarrow> None
            | Some (k, r) \<Rightarrow>
                (case skip_ws r of
                   [] \<Rightarrow> None
                 | d # ds \<Rightarrow>
                     if d = code (CHR '':'') then
                       (case parse_value n ds of
                          None \<Rightarrow> None
                        | Some (v, r') \<Rightarrow>
                            (case skip_ws r' of
                               [] \<Rightarrow> None
                             | e # es \<Rightarrow>
                                 if e = code (CHR '','') then
                                   map_option (apfst ((#) (k, v))) (parse_members n es)
                                 else if e = code (CHR ''}'') then Some ([(k, v)], es)
                                 else None))
                     else None))
         else None)"

definition json_loads :: "pystr \<Rightarrow> json option" where
  "json_loads s =
    (case parse_value (Suc (length s)) s of
       None \<Rightarrow> None
     | Some (v, r) \<Rightarrow> if skip_ws r = [] then Some v else None)"

section \<open>Names used by the properties\<close>

text \<open>The keys of the nested mappings and of the array fields of a record, the
  sub-fields the row builder reads from each nested mapping (each is also the name of
  the column it fills), and the cell of a row under a column name.\<close>

definition nested_keys :: "pystr list" where
  "nested_keys = map lit [''classification'', ''sourceInfo'', ''properties'']"

definition array_keys :: "pystr list" where
  "array_keys = map lit [''options'', ''options_hi'', ''tags'']"

definition sub_fields :: "pystr \<Rightarrow> pystr list" where
  "sub_fields outer =
    (if outer = lit ''classification'' then map lit [''subject'', ''topic'', ''subTopic'']
     else if outer = lit ''sourceInfo'' then map lit [''examName'', ''examYear'', ''examDateShift'']
     else if outer = lit ''properties'' then map lit [''difficulty'', ''questionType'']
     else [])"

definition cell :: "csv_row \<Rightarrow> pystr \<Rightarrow> json option" where
  "cell row col = map_of (zip header row) col"

section \<open>Properties of the array-literal encoder\<close>

lemma code_eq_iff [simp]: "(code a = code b) = (a = b)"
  by (simp add: code_def)

lemma lit_eq_iff [simp]: "(lit a = lit b) = (a = b)"
  by (simp add: lit_def inj_on_def inj_map_eq_map)

lemma quote_neq:
  "dquote \<noteq> backslash" "dquote \<noteq> code (CHR ''}'')" "dquote \<noteq> code (CHR '','')"
  by (simp_all add: dquote_def backslash_def code_def)

lemma escape_item_Nil: "escape_item [] = []"
  by (simp add: escape_item_def str_replace_def)

lemma escape_item_Cons:
  "escape_item (c # s) =
     (if c = backslash then [backslash, backslash]
      else if c = dquote then [backslash, dquote] else [c]) @ escape_item s"
  by (simp add: escape_item_def str_replace_def dquote_def backslash_def code_def)

lemma format_item_JStr: "format_item tbl (JStr s) = dquote # escape_item s @ [dquote]"
  by (simp add: format_item_def escape_item_def py_str_def)

text \<open>Reading an escaped element inside the quotes appends the element itself.\<close>

lemma pg_scan_escape:
  "pg_scan InQuote cur acc (escape_item s @ rest) = pg_scan InQuote (cur @ s) acc rest"
proof (induction s arbitrary: cur)
  case Nil
  show ?case by (simp add: escape_item_Nil)
next
  case (Cons c s)
  show ?case
    using quote_neq by (simp add: escape_item_Cons Cons.IH)
qed

lemma pg_scan_item:
  "pg_scan AtElem [] acc (format_item tbl (JStr s) @ rest)
     = pg_scan AfterElem [] (acc @ [s]) rest"
  using quote_neq by (simp add: format_item_JStr pg_scan_escape)

lemma lit_comma: "lit '','' = [code (CHR '','')]" "lit ''}'' = [code (CHR ''}'')]"
  "lit ''{'' = [code (CHR ''{'')]"
  by (simp_all add: lit_def)

lemma pg_scan_items:
  "pg_scan AtElem [] acc
     (join (lit '','') (map (format_item tbl) (map JStr (s # S))) @ lit ''}'')
     = Some (acc @ s # S)"
proof (induction S arbitrary: s acc)
  case Nil
  show ?case using pg_scan_item [of acc tbl s "lit ''}''"] by (simp add: lit_comma)
next
  case (Cons t T)
  have "pg_scan AtElem [] acc
          (format_item tbl (JStr s) @ code (CHR '','')
             # join (lit '','') (map (format_item tbl) (map JStr (t # T))) @ lit ''}'')
      = pg_scan AtElem [] (acc @ [s])
          (join (lit '','') (map (format_item tbl) (map JStr (t # T))) @ lit ''}'')"
    by (simp only: pg_scan_item) simp
  then show ?case using Cons.IH [of "acc @ [s]" t] by (simp add: lit_comma)
qed

text \<open>
  \<^bold>\<open>C2.\<close> For every sequence \<open>S\<close> of strings, the array-literal encoder applied to \<open>S\<close>
  returns a text (it does not raise), and the array-literal parser of the target
  database, which un-escapes backslash-backslash to a backslash and backslash-quote to
  a double quote, reads that text back as \<open>S\<close>, element by element.
\<close>

theorem array_literal_round_trip:
  "(case format_pg_array_correctly tbl (JArr (map JStr S)) of
      Inl e \<Rightarrow> False
    | Inr t \<Rightarrow> pg_array_parse t = Some S)"
proof (cases S)
  case Nil
  then show ?thesis
    by (simp add: format_pg_array_correctly_def pg_array_parse_def lit_def)
next
  case (Cons s T)
  have "pg_scan AtFirst [] []
          (join (lit '','') (map (format_item tbl) (map JStr (s # T))) @ lit ''}'')
      = pg_scan AtElem [] []
          (join (lit '','') (map (format_item tbl) (map JStr (s # T))) @ lit ''}'')"
    using quote_neq by (cases T) (simp_all add: format_item_JStr)
  then show ?thesis
    using Cons pg_scan_items [of "[]" tbl s T]
    by (simp add: format_pg_array_correctly_def pg_array_parse_def lit_comma)
qed

text \<open>
  \<^bold>\<open>C4.\<close> The encoder escapes the backslashes of an element before its double quotes:
  for the list of the two strings \<^verbatim>\<open>a"b\<close> and \<^verbatim>\<open>c\d\<close> it returns exactly
  \<^verbatim>\<open>{"a\"b","c\\d"}\<close>. The element \<^verbatim>\<open>a"b\<close> becomes \<^verbatim>\<open>"a\"b"\<close>; the
  replacements in the other order would double the backslash that escapes the quote
  and give \<^verbatim>\<open>a\\"b\<close>.
\<close>

theorem array_literal_escaping_order:
  "format_pg_array_correctly tbl
     (JArr [JStr (lit [CHR ''a'', CHR 0x22, CHR ''b'']), JStr (lit [CHR ''c'', CHR 0x5C, CHR ''d''])])
   = Inr (lit [CHR ''{'', CHR 0x22, CHR ''a'', CHR 0x5C, CHR 0x22, CHR ''b'', CHR 0x22, CHR '','',
               CHR 0x22, CHR ''c'', CHR 0x5C, CHR 0x5C, CHR ''d'', CHR 0x22, CHR ''}''])
   \<and> format_item tbl (JStr (lit [CHR ''a'', CHR 0x22, CHR ''b'']))
       = lit [CHR 0x22, CHR ''a'', CHR 0x5C, CHR 0x22, CHR ''b'', CHR 0x22]
   \<and> str_replace backslash [backslash, backslash]
        (str_replace dquote [backslash, dquote] (lit [CHR ''a'', CHR 0x22, CHR ''b'']))
       = lit [CHR ''a'', CHR 0x5C, CHR 0x5C, CHR 0x22, CHR ''b'']"
  by (simp add: format_pg_array_correctly_def format_item_def py_str_def str_replace_def
      dquote_def backslash_def lit_def code_def)

text \<open>
  \<^bold>\<open>C5.\<close> The encoder applied to the empty sequence returns \<^verbatim>\<open>{}\<close>, and applied to
  null it returns \<^verbatim>\<open>{}\<close> as well.
\<close>

theorem array_literal_empty_or_null:
  "format_pg_array_correctly tbl (JArr []) = Inr (lit ''{}'')
   \<and> format_pg_array_correctly tbl JNull = Inr (lit ''{}'')"
  by (simp add: format_pg_array_correctly_def)

text \<open>
  \<^bold>\<open>C10.\<close> The encoder returns \<^verbatim>\<open>{}\<close>, without raising, for every falsy input and
  not only for the empty sequence and null: for the number 0, the empty string, false
  and the empty mapping.
\<close>

theorem array_literal_falsy:
  "(\<not> truthy v \<longrightarrow> format_pg_array_correctly tbl v = Inr (lit ''{}''))
   \<and> format_pg_array_correctly tbl (JInt 0) = Inr (lit ''{}'')
   \<and> format_pg_array_correctly tbl (JStr []) = Inr (lit ''{}'')
   \<and> format_pg_array_correctly tbl (JBool False) = Inr (lit ''{}'')
   \<and> format_pg_array_correctly tbl (JObj []) = Inr (lit ''{}'')"
  by (simp add: format_pg_array_correctly_def)

theorem array_literal_falsy_witness:
  "\<not> truthy (JInt 0) \<and> format_pg_array_correctly plain_table (JInt 0) = Inr (lit ''{}'')"
  using array_literal_falsy [of "JInt 0" plain_table] by simp

section \<open>Properties of the output streams\<close>

lemma code_not_surrogate: "\<not> is_surrogate (code c)"
proof -
  have "code c < 256" by (simp add: code_def)
  then show ?thesis by (simp add: is_surrogate_def)
qed

lemma encodable_Nil [simp]: "encodable []"
  by (simp add: encodable_def)

lemma encodable_Cons [simp]: "encodable (c # s) = (\<not> is_surrogate c \<and> encodable s)"
  by (simp add: encodable_def)

lemma encodable_append [simp]: "encodable (s @ t) = (encodable s \<and> encodable t)"
  by (simp add: encodable_def)

lemma encodable_lit [simp]: "encodable (lit s)"
  by (induction s) (simp_all add: lit_def code_not_surrogate)

lemma digit_char_not_surrogate: "n < 16 \<Longrightarrow> \<not> is_surrogate (digit_char n)"
proof -
  assume "n < 16"
  then have "digit_char n \<in> set (lit ''0123456789abcdef'')"
    unfolding digit_char_def by (intro nth_mem) (simp add: lit_def)
  then show ?thesis
    using encodable_lit [of "''0123456789abcdef''"]
    unfolding encodable_def list_all_iff by blast
qed

lemma encodable_dec_nat [simp]: "encodable (dec_nat n)"
proof (induction n rule: dec_nat.induct)
  case (1 n)
  show ?case
  proof (cases "n < 10")
    case True
    then show ?thesis by (subst dec_nat.simps) (simp add: digit_char_not_surrogate)
  next
    case False
    then show ?thesis
      using "1.IH" by (subst dec_nat.simps) (simp add: digit_char_not_surrogate)
  qed
qed

lemma encodable_hex4 [simp]: "encodable (hex4 n)"
  by (simp add: hex4_def hex2_def digit_char_not_surrogate)

lemma encodable_error_text [simp]: "encodable (error_text e)"
  by (cases e) (simp_all add: encode_error_text_def)

text \<open>The lines that the program prints outside the loop can always be encoded, and so
  can the header row.\<close>

lemma encodable_fixed_lines:
  "encodable starting_line" "encodable (success_line n)" "encodable not_found_line"
  "encodable (unexpected_line (error_text e))"
  by (simp_all add: starting_line_def success_line_def not_found_line_def unexpected_line_def)

lemma header_row_eq:
  "header_row = map JStr header"
  by (simp add: header_row_def header_def dict_to_list_def)

section \<open>Properties of the driver\<close>

lemma writerow_header: "writerow tbl header_row = Inr ()"
proof -
  have "csv_field (lit s) = lit s" if "CHR '','' \<notin> set s" "CHR 0x22 \<notin> set s"
      "CHR 0x0D \<notin> set s" "CHR 0x0A \<notin> set s" for s
  proof -
    have "code c \<noteq> code (CHR '','') \<and> code c \<noteq> dquote \<and> code c \<noteq> 13 \<and> code c \<noteq> 10"
      if "c \<in> set s" for c
    proof -
      have "code (CHR 0x0D) = 13" "code (CHR 0x0A) = 10" by (simp_all add: code_def)
      then show ?thesis
        using that \<open>CHR '','' \<notin> set s\<close> \<open>CHR 0x22 \<notin> set s\<close> \<open>CHR 0x0D \<notin> set s\<close>
          \<open>CHR 0x0A \<notin> set s\<close>
        unfolding dquote_def by (metis code_eq_iff)
    qed
    then show ?thesis
      by (auto simp add: csv_field_def lit_def list_ex_iff)
  qed
  then have "encodable (csv_line tbl header_row)"
    by (simp add: csv_line_def header_row_eq header_def cell_text_def py_str_def is_surrogate_def)
  then show ?thesis
    by (simp add: writerow_def stream_write_def)
qed

text \<open>The loop only appends to the CSV file.\<close>

lemma process_questions_csv:
  "\<exists>rest. csv (fst (process_questions tbl qs s)) = csv s @ rest"
proof (induction qs arbitrary: s)
  case Nil
  show ?case by simp
next
  case (Cons q qs)
  show ?case
  proof (cases "try_body tbl q")
    case (Inr row)
    obtain rest where
      "csv (fst (process_questions tbl qs (s\<lparr>csv := csv s @ [row], count := count s + 1\<rparr>)))
        = csv (s\<lparr>csv := csv s @ [row], count := count s + 1\<rparr>) @ rest"
      using Cons.IH by blast
    then show ?thesis using Inr by simp
  next
    case (Inl e)
    show ?thesis
    proof (cases "bind_err (py_get q (lit ''id'') JNull)
                 (\<lambda>ident. bind_err (stream_write (error_processing_line tbl ident e))
                    (\<lambda>u. Inr (error_processing_line tbl ident e)))")
      case (Inl e')
      then show ?thesis using \<open>try_body tbl q = Inl e\<close> by simp
    next
      case (Inr line)
      obtain rest where
        "csv (fst (process_questions tbl qs (s\<lparr>console := console s @ [line]\<rparr>)))
          = csv (s\<lparr>console := console s @ [line]\<rparr>) @ rest"
        using Cons.IH by blast
      then show ?thesis using Inr \<open>try_body tbl q = Inl e\<close> by simp
    qed
  qed
qed

text \<open>The run on a document whose top-level value is an array, in terms of the loop.\<close>

lemma conversion_array:
  "conversion tbl (Document (JArr qs)) \<lparr>printed = [starting_line], written = None\<rparr> =
    (case process_questions tbl qs
            \<lparr>console = [starting_line], csv = [header_row], count = 0\<rparr> of
       (s, Some e) \<Rightarrow> (\<lparr>printed = console s, written = Some (csv s)\<rparr>, Some e)
     | (s, None) \<Rightarrow>
         (\<lparr>printed = console s @ [success_line (count s)], written = Some (csv s)\<rparr>, None))"
  by (simp add: conversion_def open_input_def json_load_def writerow_header)

lemma written_main_array:
  "written (main tbl (Document (JArr qs)))
     = Some (csv (fst (process_questions tbl qs
          \<lparr>console = [starting_line], csv = [header_row], count = 0\<rparr>)))"
  by (simp add: main_def conversion_array split: prod.splits option.splits)

text \<open>
  \<^bold>\<open>C7.\<close> For every input document whose top-level value is an array, the empty array
  included, the first line of the output is the header row with the sixteen fixed
  column names in their order; every data row comes after it. For the empty array the
  header row is the whole output.
\<close>

theorem header_row_first:
  "(\<exists>rest. written (main tbl (Document (JArr qs))) =
     Some (map (\<lambda>name. JStr (lit name))
            [''v1_id'', ''subject'', ''topic'', ''subTopic'', ''examName'', ''examYear'',
             ''examDateShift'', ''difficulty'', ''questionType'', ''question'', ''question_hi'',
             ''options'', ''options_hi'', ''correct'', ''tags'', ''explanation''] # rest))
   \<and> written (main tbl (Document (JArr []))) =
     Some [map (\<lambda>name. JStr (lit name))
            [''v1_id'', ''subject'', ''topic'', ''subTopic'', ''examName'', ''examYear'',
             ''examDateShift'', ''difficulty'', ''questionType'', ''question'', ''question_hi'',
             ''options'', ''options_hi'', ''correct'', ''tags'', ''explanation'']]"
proof -
  have h: "header_row = map (\<lambda>name. JStr (lit name))
            [''v1_id'', ''subject'', ''topic'', ''subTopic'', ''examName'', ''examYear'',
             ''examDateShift'', ''difficulty'', ''questionType'', ''question'', ''question_hi'',
             ''options'', ''options_hi'', ''correct'', ''tags'', ''explanation'']"
    by (simp add: header_row_eq header_def)
  obtain rest where
    "csv (fst (process_questions tbl qs
        \<lparr>console = [starting_line], csv = [header_row], count = 0\<rparr>))
      = [header_row] @ rest"
    using process_questions_csv
      [of tbl qs "\<lparr>console = [starting_line], csv = [header_row], count = 0\<rparr>"]
    by auto
  then have "written (main tbl (Document (JArr qs))) = Some (header_row # rest)"
    by (simp add: written_main_array)
  moreover have "written (main tbl (Document (JArr []))) = Some [header_row]"
    by (simp add: written_main_array)
  ultimately show ?thesis unfolding h by blast
qed

text \<open>
  \<^bold>\<open>C8.\<close> When the input file is not found, opening it is the first step of the body
  and raises \<^verbatim>\<open>FileNotFoundError\<close>: the body ends there and leaves everything as it
  was, so the output file is never opened, no document is loaded and no record is
  processed. The first \<^verbatim>\<open>except\<close> clause takes the exception. The program prints
  \<^verbatim>\<open>Starting conversion of questions.json with CORRECTED script...\<close> and
  \<^verbatim>\<open>Error: questions.json not found.\<close> and nothing else: no completion line with a
  count and no line about a record.
\<close>

theorem input_file_not_found:
  "open_input NotFound = Inl FileNotFoundError
   \<and> conversion tbl NotFound w = (w, Some FileNotFoundError)
   \<and> printed (main tbl NotFound) =
       [lit ''Starting conversion of questions.json with CORRECTED script...'',
        lit ''Error: questions.json not found.'']
   \<and> written (main tbl NotFound) = None
   \<and> (\<forall>n. lit ''Successfully converted '' @ dec_nat n
            @ lit '' questions to questions_for_supabase.csv using the correct format.''
          \<notin> set (printed (main tbl NotFound)))
   \<and> (\<forall>t. lit ''Error processing question '' @ t \<notin> set (printed (main tbl NotFound)))"
proof -
  have o: "open_input NotFound = Inl FileNotFoundError"
    by (simp add: open_input_def)
  have c: "conversion tbl NotFound w = (w, Some FileNotFoundError)" for w
    by (simp add: conversion_def o)
  have m: "main tbl NotFound =
      \<lparr>printed = [lit ''Starting conversion of questions.json with CORRECTED script...'',
                  lit ''Error: questions.json not found.''],
       written = None\<rparr>"
    by (simp add: main_def c starting_line_def not_found_line_def JSON_FILE_PATH_def)
  have "lit ''Successfully converted '' @ t
          \<noteq> lit ''Starting conversion of questions.json with CORRECTED script...''"
       "lit ''Successfully converted '' @ t \<noteq> lit ''Error: questions.json not found.''"
       "lit ''Error processing question '' @ t
          \<noteq> lit ''Starting conversion of questions.json with CORRECTED script...''"
       "lit ''Error processing question '' @ t \<noteq> lit ''Error: questions.json not found.''"
    for t
    by (simp_all add: lit_def)
  then show ?thesis using o c by (simp add: m)
qed

section \<open>Properties of the row builder and of the loop\<close>

lemma py_get_JObj:
  "py_get (JObj kvs) k d = Inr (case map_of kvs k of None \<Rightarrow> d | Some v \<Rightarrow> v)"
  by (simp add: py_get_def)

lemma isl_bind_err: "isl (bind_err m f) = (isl m \<or> isl (f (projr m)))"
  by (cases m) (simp_all add: bind_err_def)

lemma bind_err_Inr_iff: "(bind_err m f = Inr b) = (\<not> isl m \<and> f (projr m) = Inr b)"
  by (cases m) (simp_all add: bind_err_def)

lemma bind_err_Inl_iff:
  "(bind_err m f = Inl e) = (m = Inl e \<or> (\<not> isl m \<and> f (projr m) = Inl e))"
  by (cases m) (auto simp add: bind_err_def)

lemma build_row_Inr_iff:
  "(build_row tbl q = Inr row) =
   (\<not> isl (bind_err (py_get q (lit ''options'') (JArr [])) (format_pg_array_correctly tbl))
    \<and> \<not> isl (bind_err (py_get q (lit ''options_hi'') (JArr [])) (format_pg_array_correctly tbl))
    \<and> \<not> isl (bind_err (py_get q (lit ''tags'') (JArr [])) (format_pg_array_correctly tbl))
    \<and> \<not> isl (py_get q (lit ''explanation'') (JObj []))
    \<and> \<not> isl (py_get q (lit ''id'') JNull)
    \<and> \<not> isl (nested_get q (lit ''classification'') (lit ''subject''))
    \<and> \<not> isl (nested_get q (lit ''classification'') (lit ''topic''))
    \<and> \<not> isl (nested_get q (lit ''classification'') (lit ''subTopic''))
    \<and> \<not> isl (nested_get q (lit ''sourceInfo'') (lit ''examName''))
    \<and> \<not> isl (nested_get q (lit ''sourceInfo'') (lit ''examYear''))
    \<and> \<not> isl (nested_get q (lit ''sourceInfo'') (lit ''examDateShift''))
    \<and> \<not> isl (nested_get q (lit ''properties'') (lit ''difficulty''))
    \<and> \<not> isl (nested_get q (lit ''properties'') (lit ''questionType''))
    \<and> \<not> isl (py_get q (lit ''question'') JNull)
    \<and> \<not> isl (py_get q (lit ''question_hi'') JNull)
    \<and> \<not> isl (py_get q (lit ''correct'') JNull)
    \<and> row =
      [projr (py_get q (lit ''id'') JNull),
       projr (nested_get q (lit ''classification'') (lit ''subject'')),
       projr (nested_get q (lit ''classification'') (lit ''topic'')),
       projr (nested_get q (lit ''classification'') (lit ''subTopic'')),
       projr (nested_get q (lit ''sourceInfo'') (lit ''examName'')),
       projr (nested_get q (lit ''sourceInfo'') (lit ''examYear'')),
       projr (nested_get q (lit ''sourceInfo'') (lit ''examDateShift'')),
       projr (nested_get q (lit ''properties'') (lit ''difficulty'')),
       projr (nested_get q (lit ''properties'') (lit ''questionType'')),
       projr (py_get q (lit ''question'') JNull),
       projr (py_get q (lit ''question_hi'') JNull),
       JStr (projr (bind_err (py_get q (lit ''options'') (JArr []))
                      (format_pg_array_correctly tbl))),
       JStr (projr (bind_err (py_get q (lit ''options_hi'') (JArr []))
                      (format_pg_array_correctly tbl))),
       projr (py_get q (lit ''correct'') JNull),
       JStr (projr (bind_err (py_get q (lit ''tags'') (JArr []))
                      (format_pg_array_correctly tbl))),
       JStr (json_dumps (projr (py_get q (lit ''explanation'') (JObj []))))])"
  unfolding build_row_def Let_def bind_err_Inr_iff
  by (simp add: dict_to_list_def header_def) blast

lemma nested_get_absent:
  "map_of kvs K = None \<Longrightarrow> nested_get (JObj kvs) K sub = Inr JNull"
  by (simp add: nested_get_def py_get_def bind_err_def)

lemma nested_get_null:
  "map_of kvs K = Some JNull \<Longrightarrow>
   nested_get (JObj kvs) K sub = Inl (AttributeError ''NoneType'' ''get'')"
  by (simp add: nested_get_def py_get_def bind_err_def)

lemma nested_get_dict:
  "map_of kvs K = Some (JObj m) \<Longrightarrow> \<not> isl (nested_get (JObj kvs) K sub)"
  by (simp add: nested_get_def py_get_def bind_err_def)

lemma nested_get_error:
  "nested_get (JObj kvs) K sub = Inl e \<Longrightarrow> \<exists>t. e = AttributeError t ''get''"
  by (auto simp add: nested_get_def py_get_def bind_err_def split: option.splits json.splits)

lemma format_error:
  "format_pg_array_correctly tbl v = Inl e \<Longrightarrow> \<exists>t. e = TypeError_not_iterable t"
  by (cases v) (auto simp add: format_pg_array_correctly_def split: if_splits)

lemma array_field_error:
  "bind_err (py_get (JObj kvs) a (JArr [])) (format_pg_array_correctly tbl) = Inl e \<Longrightarrow>
   \<exists>t. e = TypeError_not_iterable t"
  by (auto simp add: py_get_JObj bind_err_def dest: format_error)

lemma build_row_Inl_cases:
  assumes "build_row tbl (JObj kvs) = Inl e"
  shows "bind_err (py_get (JObj kvs) (lit ''options'') (JArr []))
           (format_pg_array_correctly tbl) = Inl e
    \<or> bind_err (py_get (JObj kvs) (lit ''options_hi'') (JArr []))
           (format_pg_array_correctly tbl) = Inl e
    \<or> bind_err (py_get (JObj kvs) (lit ''tags'') (JArr []))
           (format_pg_array_correctly tbl) = Inl e
    \<or> (\<exists>t. e = AttributeError t ''get'')"
  using assms unfolding build_row_def Let_def bind_err_Inl_iff
  by (auto simp add: py_get_JObj dest: nested_get_error)

lemma build_row_error_kind:
  assumes "build_row tbl (JObj kvs) = Inl e"
  shows "(\<exists>t. e = AttributeError t ''get'') \<or> (\<exists>t. e = TypeError_not_iterable t)"
  using build_row_Inl_cases [OF assms] by (auto dest: array_field_error)

lemma build_row_length: "build_row tbl q = Inr row \<Longrightarrow> length row = 16"
  unfolding build_row_Inr_iff by simp

text \<open>The body of the \<^verbatim>\<open>try\<close>: it gives a row when the row is built and its line
  can be encoded, and raises what the builder raised or the encoding error of the line.\<close>

lemma try_body_Inr_iff:
  "(try_body tbl q = Inr row) = (build_row tbl q = Inr row \<and> encodable (csv_line tbl row))"
  by (cases "build_row tbl q")
     (auto simp add: try_body_def bind_err_def writerow_def stream_write_def)

lemma try_body_Inl_iff:
  "(try_body tbl q = Inl e) =
     (build_row tbl q = Inl e
      \<or> (\<exists>row. build_row tbl q = Inr row \<and> \<not> encodable (csv_line tbl row)
              \<and> e = UnicodeEncodeError (csv_line tbl row)))"
  by (cases "build_row tbl q")
     (auto simp add: try_body_def bind_err_def writerow_def stream_write_def)

lemma try_body_build_error: "build_row tbl q = Inl e \<Longrightarrow> try_body tbl q = Inl e"
  by (simp add: try_body_Inl_iff)

text \<open>One step of the loop at a mapping whose body raised: the report is printed and
  the loop goes on, or the print raises and ends the loop.\<close>

lemma process_questions_raise:
  assumes "try_body tbl (JObj kvs) = Inl e"
  shows "process_questions tbl (JObj kvs # qs) s =
    (if encodable (py_str tbl (case map_of kvs (lit ''id'') of None \<Rightarrow> JNull | Some v \<Rightarrow> v))
     then process_questions tbl qs
            (s\<lparr>console := console s @
               [lit ''Error processing question ''
                @ py_str tbl (case map_of kvs (lit ''id'') of None \<Rightarrow> JNull | Some v \<Rightarrow> v)
                @ lit '': '' @ error_text e]\<rparr>)
     else (s, Some (UnicodeEncodeError
            (lit ''Error processing question ''
             @ py_str tbl (case map_of kvs (lit ''id'') of None \<Rightarrow> JNull | Some v \<Rightarrow> v)
             @ lit '': '' @ error_text e))))"
  using assms
  by (simp add: py_get_JObj bind_err_def stream_write_def error_processing_line_def)

text \<open>
  \<^bold>\<open>C9\<close>, as stated, fails: a record with a nested key bound to null is not always
  reported and skipped. In \<^verbatim>\<open>{"id": "\ud800", "sourceInfo": null}\<close> the identifier holds
  a lone surrogate; the row builder raises, but the \<^verbatim>\<open>print\<close> of the report raises
  \<^verbatim>\<open>UnicodeEncodeError\<close> in its turn, which ends the loop: the run prints the line of
  the unexpected error and no line about the record.
\<close>

theorem null_nested_mapping_unreported:
  "map_of [(lit ''id'', JStr [0xD800]), (lit ''sourceInfo'', JNull)] (lit ''sourceInfo'')
     = Some JNull
   \<and> build_row plain_table (JObj [(lit ''id'', JStr [0xD800]), (lit ''sourceInfo'', JNull)])
     = Inl (AttributeError ''NoneType'' ''get'')
   \<and> main plain_table
        (Document (JArr [JObj [(lit ''id'', JStr [0xD800]), (lit ''sourceInfo'', JNull)]]))
     = \<lparr>printed =
          [lit ''Starting conversion of questions.json with CORRECTED script...'',
           lit (''An unexpected error occurred: '' @ [CHR 0x27] @ ''utf-8'' @ [CHR 0x27]
                @ '' codec can't encode character '' @ [CHR 0x27, CHR 0x5C] @ ''ud800''
                @ [CHR 0x27] @ '' in position 26: surrogates not allowed'')],
        written = Some [header_row]\<rparr>"
proof -
  let ?q = "JObj [(lit ''id'', JStr [0xD800]), (lit ''sourceInfo'', JNull)]"
  have b: "build_row plain_table ?q = Inl (AttributeError ''NoneType'' ''get'')"
    by (simp add: build_row_def bind_err_def py_get_def nested_get_def
        format_pg_array_correctly_def)
  have s: "is_surrogate 0xD800" by (simp add: is_surrogate_def)
  have p: "process_questions plain_table [?q] st =
      (st, Some (UnicodeEncodeError
         (lit ''Error processing question '' @ [0xD800] @ lit '': ''
          @ error_text (AttributeError ''NoneType'' ''get''))))" for st
    using process_questions_raise [OF try_body_build_error [OF b], of "[]" st] s
    by (simp add: py_str_def)
  have t: "error_text (UnicodeEncodeError
         (lit ''Error processing question '' @ [0xD800] @ lit '': ''
          @ error_text (AttributeError ''NoneType'' ''get'')))
      = lit ([CHR 0x27] @ ''utf-8'' @ [CHR 0x27]
                @ '' codec can't encode character '' @ [CHR 0x27, CHR 0x5C] @ ''ud800''
                @ [CHR 0x27] @ '' in position 26: surrogates not allowed'')"
    by (simp add: encode_error_text_def first_bad_def bad_run_def is_surrogate_def lit_def
        code_def hex4_def hex2_def digit_char_def dec_nat.simps)
  have "main plain_table (Document (JArr [?q])) =
      \<lparr>printed = [starting_line, unexpected_line (lit ([CHR 0x27] @ ''utf-8'' @ [CHR 0x27]
                @ '' codec can't encode character '' @ [CHR 0x27, CHR 0x5C] @ ''ud800''
                @ [CHR 0x27] @ '' in position 26: surrogates not allowed''))],
       written = Some [header_row]\<rparr>"
    unfolding main_def conversion_array p t [symmetric] by simp
  then show ?thesis
    using b by (simp add: starting_line_def unexpected_line_def JSON_FILE_PATH_def lit_def)
qed

text \<open>
  \<^bold>\<open>C9\<close>, amended. For every record in which \<^verbatim>\<open>classification\<close>, \<^verbatim>\<open>sourceInfo\<close> or
  \<^verbatim>\<open>properties\<close> is present and bound to null, every lookup of a sub-field of that
  key raises (\<^verbatim>\<open>.get\<close> on \<^verbatim>\<open>None\<close>), so the row builder raises and no row is written
  for the record: no defaulting happens for a null, as it does for an absent key. The
  exception is the \<^verbatim>\<open>AttributeError\<close> of a \<^verbatim>\<open>.get\<close>, or the \<^verbatim>\<open>TypeError\<close> of an
  array field that raised first. When the text of the identifier of the record can be
  encoded for standard output (it holds no lone surrogate), the loop prints
  \<^verbatim>\<open>Error processing question\<close>, the identifier, a colon and the text of the
  exception, and goes on with the rest; the record does not count. Otherwise the
  \<^verbatim>\<open>print\<close> raises and ends the loop.
\<close>

theorem null_nested_mapping_raises:
  assumes "K \<in> set nested_keys" and "map_of kvs K = Some JNull"
  shows "(\<forall>sub. nested_get (JObj kvs) K sub = Inl (AttributeError ''NoneType'' ''get''))
    \<and> (\<exists>e. build_row tbl (JObj kvs) = Inl e
         \<and> ((\<exists>t. e = AttributeError t ''get'') \<or> (\<exists>t. e = TypeError_not_iterable t))
         \<and> (\<not> isl (bind_err (py_get (JObj kvs) (lit ''options'') (JArr []))
                      (format_pg_array_correctly tbl))
            \<and> \<not> isl (bind_err (py_get (JObj kvs) (lit ''options_hi'') (JArr []))
                        (format_pg_array_correctly tbl))
            \<and> \<not> isl (bind_err (py_get (JObj kvs) (lit ''tags'') (JArr []))
                        (format_pg_array_correctly tbl))
            \<longrightarrow> (\<exists>t. e = AttributeError t ''get''))
         \<and> (\<forall>qs s. process_questions tbl (JObj kvs # qs) s =
              (if encodable
                    (py_str tbl (case map_of kvs (lit ''id'') of None \<Rightarrow> JNull | Some v \<Rightarrow> v))
               then process_questions tbl qs
                 (s\<lparr>console := console s @
                    [lit ''Error processing question ''
                     @ py_str tbl (case map_of kvs (lit ''id'') of None \<Rightarrow> JNull | Some v \<Rightarrow> v)
                     @ lit '': ''
                     @ (case e of
                          AttributeError t a \<Rightarrow>
                            lit ([CHR 0x27] @ t @ [CHR 0x27] @ '' object has no attribute ''
                                 @ [CHR 0x27] @ a @ [CHR 0x27])
                        | TypeError_not_iterable t \<Rightarrow>
                            lit ([CHR 0x27] @ t @ [CHR 0x27] @ '' object is not iterable'')
                        | _ \<Rightarrow> [])]\<rparr>)
               else (s, Some (UnicodeEncodeError
                    (lit ''Error processing question ''
                     @ py_str tbl (case map_of kvs (lit ''id'') of None \<Rightarrow> JNull | Some v \<Rightarrow> v)
                     @ lit '': ''
                     @ (case e of
                          AttributeError t a \<Rightarrow>
                            lit ([CHR 0x27] @ t @ [CHR 0x27] @ '' object has no attribute ''
                                 @ [CHR 0x27] @ a @ [CHR 0x27])
                        | TypeError_not_iterable t \<Rightarrow>
                            lit ([CHR 0x27] @ t @ [CHR 0x27] @ '' object is not iterable'')
                        | _ \<Rightarrow> [])))))))"
proof -
  have n: "\<And>sub. nested_get (JObj kvs) K sub = Inl (AttributeError ''NoneType'' ''get'')"
    using assms(2) by (rule nested_get_null)
  have "\<And>row. build_row tbl (JObj kvs) \<noteq> Inr row"
    using assms(1) n unfolding build_row_Inr_iff nested_keys_def by auto
  then obtain e where e: "build_row tbl (JObj kvs) = Inl e"
    by (cases "build_row tbl (JObj kvs)") auto
  have k: "(\<exists>t. e = AttributeError t ''get'') \<or> (\<exists>t. e = TypeError_not_iterable t)"
    using e by (rule build_row_error_kind)
  then have etxt: "error_text e =
      (case e of
         AttributeError t a \<Rightarrow>
           lit ([CHR 0x27] @ t @ [CHR 0x27] @ '' object has no attribute ''
                @ [CHR 0x27] @ a @ [CHR 0x27])
       | TypeError_not_iterable t \<Rightarrow>
           lit ([CHR 0x27] @ t @ [CHR 0x27] @ '' object is not iterable'')
       | _ \<Rightarrow> [])"
    by auto
  have a: "\<not> isl (bind_err (py_get (JObj kvs) (lit ''options'') (JArr []))
                      (format_pg_array_correctly tbl))
            \<and> \<not> isl (bind_err (py_get (JObj kvs) (lit ''options_hi'') (JArr []))
                        (format_pg_array_correctly tbl))
            \<and> \<not> isl (bind_err (py_get (JObj kvs) (lit ''tags'') (JArr []))
                        (format_pg_array_correctly tbl))
            \<longrightarrow> (\<exists>t. e = AttributeError t ''get'')"
    using build_row_Inl_cases [OF e] by auto
  show ?thesis
    using n e k a process_questions_raise [OF try_body_build_error [OF e]]
    unfolding etxt by blast
qed

theorem null_nested_mapping_raises_witness:
  "lit ''sourceInfo'' \<in> set nested_keys
   \<and> map_of [(lit ''id'', JInt 7), (lit ''sourceInfo'', JNull)] (lit ''sourceInfo'') = Some JNull
   \<and> build_row plain_table (JObj [(lit ''id'', JInt 7), (lit ''sourceInfo'', JNull)])
       = Inl (AttributeError ''NoneType'' ''get'')
   \<and> process_questions plain_table [JObj [(lit ''id'', JInt 7), (lit ''sourceInfo'', JNull)]]
        \<lparr>console = [], csv = [], count = 0\<rparr>
       = (\<lparr>console =
             [lit (''Error processing question 7: '' @ [CHR 0x27] @ ''NoneType'' @ [CHR 0x27]
                   @ '' object has no attribute '' @ [CHR 0x27] @ ''get'' @ [CHR 0x27])],
           csv = [], count = 0\<rparr>, None)"
proof -
  let ?kvs = "[(lit ''id'', JInt 7), (lit ''sourceInfo'', JNull)]"
  have a: "lit ''sourceInfo'' \<in> set nested_keys" by (simp add: nested_keys_def)
  have b: "map_of ?kvs (lit ''sourceInfo'') = Some JNull" by simp
  have c: "build_row plain_table (JObj ?kvs) = Inl (AttributeError ''NoneType'' ''get'')"
    by (simp add: build_row_def bind_err_def py_get_def nested_get_def
        format_pg_array_correctly_def)
  have i: "py_str plain_table (JInt 7) = lit ''7''"
    by (simp add: py_str_def dec_int_def dec_nat.simps digit_char_def lit_def)
  obtain e where e: "build_row plain_table (JObj ?kvs) = Inl e"
    and p: "\<forall>qs s. process_questions plain_table (JObj ?kvs # qs) s =
              (if encodable
                    (py_str plain_table
                       (case map_of ?kvs (lit ''id'') of None \<Rightarrow> JNull | Some v \<Rightarrow> v))
               then process_questions plain_table qs
                 (s\<lparr>console := console s @
                    [lit ''Error processing question ''
                     @ py_str plain_table
                         (case map_of ?kvs (lit ''id'') of None \<Rightarrow> JNull | Some v \<Rightarrow> v)
                     @ lit '': ''
                     @ (case e of
                          AttributeError t a \<Rightarrow>
                            lit ([CHR 0x27] @ t @ [CHR 0x27] @ '' object has no attribute ''
                                 @ [CHR 0x27] @ a @ [CHR 0x27])
                        | TypeError_not_iterable t \<Rightarrow>
                            lit ([CHR 0x27] @ t @ [CHR 0x27] @ '' object is not iterable'')
                        | _ \<Rightarrow> [])]\<rparr>)
               else (s, Some (UnicodeEncodeError
                    (lit ''Error processing question ''
                     @ py_str plain_table
                         (case map_of ?kvs (lit ''id'') of None \<Rightarrow> JNull | Some v \<Rightarrow> v)
                     @ lit '': ''
                     @ (case e of
                          AttributeError t a \<Rightarrow>
                            lit ([CHR 0x27] @ t @ [CHR 0x27] @ '' object has no attribute ''
                                 @ [CHR 0x27] @ a @ [CHR 0x27])
                        | TypeError_not_iterable t \<Rightarrow>
                            lit ([CHR 0x27] @ t @ [CHR 0x27] @ '' object is not iterable'')
                        | _ \<Rightarrow> [])))))"
    using null_nested_mapping_raises [OF a b, of plain_table] by blast
  have e': "e = AttributeError ''NoneType'' ''get''" using e c by simp
  have "process_questions plain_table [JObj ?kvs] \<lparr>console = [], csv = [], count = 0\<rparr>
       = (\<lparr>console =
             [lit (''Error processing question 7: '' @ [CHR 0x27] @ ''NoneType'' @ [CHR 0x27]
                   @ '' object has no attribute '' @ [CHR 0x27] @ ''get'' @ [CHR 0x27])],
           csv = [], count = 0\<rparr>, None)"
    unfolding p [rule_format] e' by (simp add: i) (simp add: lit_def)
  then show ?thesis using a b c by blast
qed

lemma lit_append_fold: "lit a @ lit b = lit (a @ b)"
  by (simp add: lit_def)

lemma process_questions_rows:
  "list_all2 (\<lambda>q r. try_body tbl q = Inr r) qs rows \<Longrightarrow>
   process_questions tbl qs s =
     (s\<lparr>csv := csv s @ rows, count := count s + length rows\<rparr>, None)"
proof (induction qs rows arbitrary: s rule: list_all2_induct)
  case Nil
  show ?case by simp
next
  case (Cons q r qs rows)
  show ?case using Cons.hyps(1) by (simp add: Cons.IH)
qed

lemma process_questions_append:
  "process_questions tbl (xs @ ys) s =
     (case process_questions tbl xs s of
        (s', None) \<Rightarrow> process_questions tbl ys s'
      | (s', Some e) \<Rightarrow> (s', Some e))"
proof (induction xs arbitrary: s)
  case Nil
  show ?case by simp
next
  case (Cons x xs)
  show ?case by (simp add: Cons.IH split: sum.splits)
qed

text \<open>What the body of the \<^verbatim>\<open>try\<close> can raise at a mapping.\<close>

lemma try_body_error_kind:
  assumes "try_body tbl (JObj kvs) = Inl e"
  shows "(\<exists>t. e = AttributeError t ''get'') \<or> (\<exists>t. e = TypeError_not_iterable t)
    \<or> (\<exists>row. build_row tbl (JObj kvs) = Inr row \<and> e = UnicodeEncodeError (csv_line tbl row))"
  using assms unfolding try_body_Inl_iff by (auto dest: build_row_error_kind)

text \<open>
  \<^bold>\<open>C1\<close>, as stated, fails. The array of the two records
  \<^verbatim>\<open>{"id": "\ud800", "classification": null}\<close> and \<^verbatim>\<open>{"id": 2}\<close> has one record
  whose projection raises and one that projects to a row. The identifier of the first
  holds a lone surrogate, so the \<^verbatim>\<open>print\<close> of its report raises
  \<^verbatim>\<open>UnicodeEncodeError\<close>, which ends the loop: the run prints the line of the
  unexpected error, no report of the record and no completion line, and the file holds
  the header and no data row.
\<close>

theorem failing_record_unreported:
  "try_body plain_table (JObj [(lit ''id'', JStr [0xD800]), (lit ''classification'', JNull)])
     = Inl (AttributeError ''NoneType'' ''get'')
   \<and> try_body plain_table (JObj [(lit ''id'', JInt 2)])
     = Inr [JInt 2, JNull, JNull, JNull, JNull, JNull, JNull, JNull, JNull, JNull, JNull,
            JStr (lit ''{}''), JStr (lit ''{}''), JNull, JStr (lit ''{}''), JStr (lit ''{}'')]
   \<and> main plain_table
        (Document (JArr [JObj [(lit ''id'', JStr [0xD800]), (lit ''classification'', JNull)],
                         JObj [(lit ''id'', JInt 2)]]))
     = \<lparr>printed =
          [lit ''Starting conversion of questions.json with CORRECTED script...'',
           lit (''An unexpected error occurred: '' @ [CHR 0x27] @ ''utf-8'' @ [CHR 0x27]
                @ '' codec can't encode character '' @ [CHR 0x27, CHR 0x5C] @ ''ud800''
                @ [CHR 0x27] @ '' in position 26: surrogates not allowed'')],
        written = Some [header_row]\<rparr>"
proof -
  let ?q0 = "JObj [(lit ''id'', JStr [0xD800]), (lit ''classification'', JNull)]"
  let ?q1 = "JObj [(lit ''id'', JInt 2)]"
  let ?r1 = "[JInt 2, JNull, JNull, JNull, JNull, JNull, JNull, JNull, JNull, JNull, JNull,
            JStr (lit ''{}''), JStr (lit ''{}''), JNull, JStr (lit ''{}''), JStr (lit ''{}'')]"
  have b0: "build_row plain_table ?q0 = Inl (AttributeError ''NoneType'' ''get'')"
    by (simp add: build_row_def bind_err_def py_get_def nested_get_def
        format_pg_array_correctly_def)
  have b1: "build_row plain_table ?q1 = Inr ?r1"
    by (simp add: build_row_def bind_err_def py_get_def nested_get_def
        format_pg_array_correctly_def dict_to_list_def header_def lit_append_fold)
  have c1: "encodable (csv_line plain_table ?r1)"
    by (simp add: csv_line_def cell_text_def py_str_def csv_field_def dec_int_def
        dec_nat.simps digit_char_def lit_def code_def dquote_def is_surrogate_def)
  have t1: "try_body plain_table ?q1 = Inr ?r1"
    using b1 c1 by (simp add: try_body_Inr_iff)
  have s: "is_surrogate 0xD800" by (simp add: is_surrogate_def)
  have p: "process_questions plain_table [?q0, ?q1] st =
      (st, Some (UnicodeEncodeError
         (lit ''Error processing question '' @ [0xD800] @ lit '': ''
          @ error_text (AttributeError ''NoneType'' ''get''))))" for st
    using process_questions_raise [OF try_body_build_error [OF b0], of "[?q1]" st] s
    by (simp add: py_str_def)
  have t: "error_text (UnicodeEncodeError
         (lit ''Error processing question '' @ [0xD800] @ lit '': ''
          @ error_text (AttributeError ''NoneType'' ''get'')))
      = lit ([CHR 0x27] @ ''utf-8'' @ [CHR 0x27]
                @ '' codec can't encode character '' @ [CHR 0x27, CHR 0x5C] @ ''ud800''
                @ [CHR 0x27] @ '' in position 26: surrogates not allowed'')"
    by (simp add: encode_error_text_def first_bad_def bad_run_def is_surrogate_def lit_def
        code_def hex4_def hex2_def digit_char_def dec_nat.simps)
  have "main plain_table (Document (JArr [?q0, ?q1])) =
      \<lparr>printed = [starting_line, unexpected_line (lit ([CHR 0x27] @ ''utf-8'' @ [CHR 0x27]
                @ '' codec can't encode character '' @ [CHR 0x27, CHR 0x5C] @ ''ud800''
                @ [CHR 0x27] @ '' in position 26: surrogates not allowed''))],
       written = Some [header_row]\<rparr>"
    unfolding main_def conversion_array p t [symmetric] by simp
  then show ?thesis
    using try_body_build_error [OF b0] t1
    by (simp add: starting_line_def unexpected_line_def JSON_FILE_PATH_def lit_def)
qed

text \<open>
  \<^bold>\<open>C1\<close>, amended. Let the input be an array of \<open>N\<close> records, let projecting record \<open>k\<close>
  raise \<open>e\<close> (in building the row or in writing it), and let every other record project
  to a row that is written; \<open>rows\<close> are these rows in the order of the input. A record
  is a mapping, as in the data model of the spec. Let the text of the identifier of
  record \<open>k\<close> be one that standard output can encode (it holds no lone surrogate). Then
  the program prints the starting line, then \<^verbatim>\<open>Error processing question\<close> with the
  identifier of record \<open>k\<close>, a colon and the text of \<open>e\<close>, then the completion line with
  the count \<open>N - 1\<close>; the output file holds the header row followed by exactly \<open>rows\<close>,
  which are \<open>N - 1\<close> rows of sixteen cells each, so nothing of record \<open>k\<close> is written.
  The exception \<open>e\<close> is the \<^verbatim>\<open>AttributeError\<close> of a \<^verbatim>\<open>.get\<close>, the \<^verbatim>\<open>TypeError\<close> of an
  array field, or the \<^verbatim>\<open>UnicodeEncodeError\<close> of the line of the row.
\<close>

theorem failing_record_is_skipped:
  assumes k: "k < length qs"
    and dict: "qs ! k = JObj kvs"
    and fails: "try_body tbl (qs ! k) = Inl e"
    and others: "list_all2 (\<lambda>q r. try_body tbl q = Inr r) (take k qs @ drop (Suc k) qs) rows"
    and ident: "encodable
                 (py_str tbl (case map_of kvs (lit ''id'') of None \<Rightarrow> JNull | Some v \<Rightarrow> v))"
  shows "main tbl (Document (JArr qs)) =
      \<lparr>printed =
         [lit ''Starting conversion of questions.json with CORRECTED script...'',
          lit ''Error processing question ''
          @ py_str tbl (case map_of kvs (lit ''id'') of None \<Rightarrow> JNull | Some v \<Rightarrow> v)
          @ lit '': ''
          @ (case e of
               AttributeError t a \<Rightarrow>
                 lit ([CHR 0x27] @ t @ [CHR 0x27] @ '' object has no attribute ''
                      @ [CHR 0x27] @ a @ [CHR 0x27])
             | TypeError_not_iterable t \<Rightarrow>
                 lit ([CHR 0x27] @ t @ [CHR 0x27] @ '' object is not iterable'')
             | UnicodeEncodeError ln \<Rightarrow>
                 (if bad_run ln = 1 then
                    lit ([CHR 0x27] @ ''utf-8'' @ [CHR 0x27] @ '' codec can't encode character ''
                         @ [CHR 0x27, CHR 0x5C] @ ''u'')
                    @ hex4 (ln ! first_bad ln)
                    @ lit ([CHR 0x27] @ '' in position '') @ dec_nat (first_bad ln)
                    @ lit '': surrogates not allowed''
                  else
                    lit ([CHR 0x27] @ ''utf-8'' @ [CHR 0x27]
                         @ '' codec can't encode characters in position '')
                    @ dec_nat (first_bad ln) @ lit ''-''
                    @ dec_nat (first_bad ln + bad_run ln - 1)
                    @ lit '': surrogates not allowed'')
             | _ \<Rightarrow> []),
          lit ''Successfully converted '' @ dec_nat (length qs - 1)
          @ lit '' questions to questions_for_supabase.csv using the correct format.''],
       written = Some (header_row # rows)\<rparr>
    \<and> length rows = length qs - 1
    \<and> (\<forall>r \<in> set rows. length r = 16)
    \<and> ((\<exists>t. e = AttributeError t ''get'') \<or> (\<exists>t. e = TypeError_not_iterable t)
       \<or> (\<exists>row. build_row tbl (qs ! k) = Inr row \<and> e = UnicodeEncodeError (csv_line tbl row)))"
proof -
  obtain rows1 rows2 where rows: "rows = rows1 @ rows2"
    and r1: "list_all2 (\<lambda>q r. try_body tbl q = Inr r) (take k qs) rows1"
    and r2: "list_all2 (\<lambda>q r. try_body tbl q = Inr r) (drop (Suc k) qs) rows2"
    using others by (auto simp add: list_all2_append1)
  have qs: "take k qs @ [JObj kvs] @ drop (Suc k) qs = qs"
    using id_take_nth_drop [OF k, symmetric] dict by simp
  have kind: "(\<exists>t. e = AttributeError t ''get'') \<or> (\<exists>t. e = TypeError_not_iterable t)
       \<or> (\<exists>row. build_row tbl (qs ! k) = Inr row \<and> e = UnicodeEncodeError (csv_line tbl row))"
    using fails unfolding dict by (rule try_body_error_kind)
  define s0 where "s0 = \<lparr>console = [starting_line], csv = [header_row], count = 0\<rparr>"
  define ln where
    "ln = lit ''Error processing question ''
          @ py_str tbl (case map_of kvs (lit ''id'') of None \<Rightarrow> JNull | Some v \<Rightarrow> v)
          @ lit '': '' @ error_text e"
  have etxt: "error_text e =
          (case e of
               AttributeError t a \<Rightarrow>
                 lit ([CHR 0x27] @ t @ [CHR 0x27] @ '' object has no attribute ''
                      @ [CHR 0x27] @ a @ [CHR 0x27])
             | TypeError_not_iterable t \<Rightarrow>
                 lit ([CHR 0x27] @ t @ [CHR 0x27] @ '' object is not iterable'')
             | UnicodeEncodeError ln \<Rightarrow>
                 (if bad_run ln = 1 then
                    lit ([CHR 0x27] @ ''utf-8'' @ [CHR 0x27] @ '' codec can't encode character ''
                         @ [CHR 0x27, CHR 0x5C] @ ''u'')
                    @ hex4 (ln ! first_bad ln)
                    @ lit ([CHR 0x27] @ '' in position '') @ dec_nat (first_bad ln)
                    @ lit '': surrogates not allowed''
                  else
                    lit ([CHR 0x27] @ ''utf-8'' @ [CHR 0x27]
                         @ '' codec can't encode characters in position '')
                    @ dec_nat (first_bad ln) @ lit ''-''
                    @ dec_nat (first_bad ln + bad_run ln - 1)
                    @ lit '': surrogates not allowed'')
             | _ \<Rightarrow> [])"
    using kind by (auto simp add: encode_error_text_def)
  have one: "process_questions tbl [JObj kvs] s = (s\<lparr>console := console s @ [ln]\<rparr>, None)"
    for s
    using process_questions_raise [of tbl kvs e "[]" s] fails ident
    unfolding dict ln_def by simp
  have "process_questions tbl (take k qs @ [JObj kvs] @ drop (Suc k) qs) s0 =
      (\<lparr>console = [starting_line, ln], csv = header_row # rows1 @ rows2,
        count = length rows1 + length rows2\<rparr>, None)"
    unfolding process_questions_append process_questions_rows [OF r1]
      process_questions_rows [OF r2] one
    by (simp add: s0_def)
  then have run: "process_questions tbl qs s0 =
      (\<lparr>console = [starting_line, ln], csv = header_row # rows,
        count = length rows\<rparr>, None)"
    unfolding qs rows by simp
  have len: "length rows = length qs - 1"
    using list_all2_lengthD [OF others] k by simp
  have "main tbl (Document (JArr qs)) =
      \<lparr>printed = [starting_line, ln, success_line (length rows)],
       written = Some (header_row # rows)\<rparr>"
    using run unfolding main_def conversion_array s0_def by simp
  moreover have "\<forall>r \<in> set rows. length r = 16"
  proof
    fix r assume "r \<in> set rows"
    then obtain q where "try_body tbl q = Inr r"
      using others by (auto simp add: list_all2_conv_all_nth in_set_conv_nth)
    then show "length r = 16" by (auto simp add: try_body_Inr_iff dest: build_row_length)
  qed
  ultimately show ?thesis
    using len kind unfolding ln_def etxt
    by (simp add: starting_line_def success_line_def JSON_FILE_PATH_def CSV_FILE_PATH_def lit_def)
qed

lemma plain_row_encodable:
  "encodable (csv_line plain_table
     [JInt i, JNull, JNull, JNull, JNull, JNull, JNull, JNull, JNull, JNull, JNull,
      JStr (lit ''{}''), JStr (lit ''{}''), JNull, JStr (lit ''{}''), JStr (lit ''{}'')])"
proof -
  have "csv_field (cell_text plain_table (JInt i)) = dec_int i \<or>
        csv_field (cell_text plain_table (JInt i)) =
          [dquote] @ str_replace dquote [dquote, dquote] (dec_int i) @ [dquote]"
    by (simp add: csv_field_def cell_text_def py_str_def)
  moreover have "encodable (dec_int i)"
    by (simp add: dec_int_def code_not_surrogate)
  moreover have "encodable (str_replace dquote [dquote, dquote] s)" if "encodable s" for s
    using that by (induction s) (simp_all add: str_replace_def dquote_def code_not_surrogate)
  moreover have "\<not> is_surrogate dquote"
    by (simp add: dquote_def code_not_surrogate)
  moreover have "csv_field (cell_text plain_table (JStr (lit ''{}''))) = lit ''{}''"
    by (simp add: csv_field_def cell_text_def py_str_def lit_def code_def dquote_def)
  moreover have "csv_field (cell_text plain_table JNull) = []"
    by (simp add: csv_field_def cell_text_def)
  ultimately show ?thesis
    by (auto simp add: csv_line_def is_surrogate_def)
qed

theorem failing_record_is_skipped_witness:
  "(1::nat) < length [JObj [(lit ''id'', JInt 1)],
                      JObj [(lit ''id'', JInt 2), (lit ''classification'', JNull)],
                      JObj [(lit ''id'', JInt 3)]]
   \<and> try_body plain_table (JObj [(lit ''id'', JInt 2), (lit ''classification'', JNull)])
        = Inl (AttributeError ''NoneType'' ''get'')
   \<and> try_body plain_table (JObj [(lit ''id'', JInt 1)])
        = Inr [JInt 1, JNull, JNull, JNull, JNull, JNull, JNull, JNull, JNull, JNull, JNull,
               JStr (lit ''{}''), JStr (lit ''{}''), JNull, JStr (lit ''{}''), JStr (lit ''{}'')]
   \<and> try_body plain_table (JObj [(lit ''id'', JInt 3)])
        = Inr [JInt 3, JNull, JNull, JNull, JNull, JNull, JNull, JNull, JNull, JNull, JNull,
               JStr (lit ''{}''), JStr (lit ''{}''), JNull, JStr (lit ''{}''), JStr (lit ''{}'')]
   \<and> encodable (py_str plain_table (JInt 2))
   \<and> main plain_table
        (Document (JArr [JObj [(lit ''id'', JInt 1)],
                         JObj [(lit ''id'', JInt 2), (lit ''classification'', JNull)],
                         JObj [(lit ''id'', JInt 3)]])) =
      \<lparr>printed =
         [lit ''Starting conversion of questions.json with CORRECTED script...'',
          lit (''Error processing question 2: '' @ [CHR 0x27] @ ''NoneType'' @ [CHR 0x27]
               @ '' object has no attribute '' @ [CHR 0x27] @ ''get'' @ [CHR 0x27]),
          lit ''Successfully converted 2 questions to questions_for_supabase.csv using the correct format.''],
       written = Some
         [header_row,
          [JInt 1, JNull, JNull, JNull, JNull, JNull, JNull, JNull, JNull, JNull, JNull,
           JStr (lit ''{}''), JStr (lit ''{}''), JNull, JStr (lit ''{}''), JStr (lit ''{}'')],
          [JInt 3, JNull, JNull, JNull, JNull, JNull, JNull, JNull, JNull, JNull, JNull,
           JStr (lit ''{}''), JStr (lit ''{}''), JNull, JStr (lit ''{}''), JStr (lit ''{}'')]]\<rparr>"
proof -
  let ?q1 = "JObj [(lit ''id'', JInt 1)]"
  let ?kvs = "[(lit ''id'', JInt 2), (lit ''classification'', JNull)]"
  let ?q3 = "JObj [(lit ''id'', JInt 3)]"
  let ?r1 = "[JInt 1, JNull, JNull, JNull, JNull, JNull, JNull, JNull, JNull, JNull, JNull,
               JStr (lit ''{}''), JStr (lit ''{}''), JNull, JStr (lit ''{}''), JStr (lit ''{}'')]"
  let ?r3 = "[JInt 3, JNull, JNull, JNull, JNull, JNull, JNull, JNull, JNull, JNull, JNull,
               JStr (lit ''{}''), JStr (lit ''{}''), JNull, JStr (lit ''{}''), JStr (lit ''{}'')]"
  have k: "(1::nat) < length [?q1, JObj ?kvs, ?q3]" by simp
  have d: "[?q1, JObj ?kvs, ?q3] ! 1 = JObj ?kvs" by simp
  have b2: "build_row plain_table (JObj ?kvs) = Inl (AttributeError ''NoneType'' ''get'')"
    by (simp add: build_row_def bind_err_def py_get_def nested_get_def
        format_pg_array_correctly_def)
  have t2: "try_body plain_table (JObj ?kvs) = Inl (AttributeError ''NoneType'' ''get'')"
    using b2 by (rule try_body_build_error)
  have b1: "build_row plain_table ?q1 = Inr ?r1"
    by (simp add: build_row_def bind_err_def py_get_def nested_get_def
        format_pg_array_correctly_def dict_to_list_def header_def lit_append_fold)
  have b3: "build_row plain_table ?q3 = Inr ?r3"
    by (simp add: build_row_def bind_err_def py_get_def nested_get_def
        format_pg_array_correctly_def dict_to_list_def header_def lit_append_fold)
  have t1: "try_body plain_table ?q1 = Inr ?r1"
    using b1 plain_row_encodable [of 1] by (simp add: try_body_Inr_iff)
  have t3: "try_body plain_table ?q3 = Inr ?r3"
    using b3 plain_row_encodable [of 3] by (simp add: try_body_Inr_iff)
  have f: "try_body plain_table ([?q1, JObj ?kvs, ?q3] ! 1)
      = Inl (AttributeError ''NoneType'' ''get'')"
    using t2 by simp
  have o: "list_all2 (\<lambda>q r. try_body plain_table q = Inr r)
             (take 1 [?q1, JObj ?kvs, ?q3] @ drop (Suc 1) [?q1, JObj ?kvs, ?q3]) [?r1, ?r3]"
    using t1 t3 by simp
  have i2: "py_str plain_table (JInt 2) = lit ''2''"
    by (simp add: py_str_def dec_int_def dec_nat.simps digit_char_def lit_def)
  have i: "encodable
            (py_str plain_table (case map_of ?kvs (lit ''id'') of None \<Rightarrow> JNull | Some v \<Rightarrow> v))"
    by (simp add: i2)
  have n2: "dec_nat (length [?q1, JObj ?kvs, ?q3] - 1) = lit ''2''"
    by (simp add: dec_nat.simps digit_char_def lit_def)
  have m: "main plain_table (Document (JArr [?q1, JObj ?kvs, ?q3])) =
      \<lparr>printed =
         [lit ''Starting conversion of questions.json with CORRECTED script...'',
          lit ''Error processing question '' @ lit ''2'' @ lit '': ''
          @ lit ([CHR 0x27] @ ''NoneType'' @ [CHR 0x27] @ '' object has no attribute ''
                 @ [CHR 0x27] @ ''get'' @ [CHR 0x27]),
          lit ''Successfully converted '' @ lit ''2''
          @ lit '' questions to questions_for_supabase.csv using the correct format.''],
       written = Some [header_row, ?r1, ?r3]\<rparr>"
    using failing_record_is_skipped [OF k d f o i] unfolding n2 by (simp add: i2)
  have "main plain_table (Document (JArr [?q1, JObj ?kvs, ?q3])) =
      \<lparr>printed =
         [lit ''Starting conversion of questions.json with CORRECTED script...'',
          lit (''Error processing question 2: '' @ [CHR 0x27] @ ''NoneType'' @ [CHR 0x27]
               @ '' object has no attribute '' @ [CHR 0x27] @ ''get'' @ [CHR 0x27]),
          lit ''Successfully converted 2 questions to questions_for_supabase.csv using the correct format.''],
       written = Some [header_row, ?r1, ?r3]\<rparr>"
    unfolding m by (simp add: lit_def)
  then show ?thesis using k t1 t2 t3 i2 by simp
qed

text \<open>A record whose row cannot be encoded is reported and skipped like one whose
  projection raises: in \<^verbatim>\<open>{"id": 2, "question": "\ud800"}\<close> the row is built, the
  write of its line raises, and the report names the position of the surrogate in the
  line.\<close>

lemma unencodable_row_example:
  "process_questions plain_table [JObj [(lit ''id'', JInt 2), (lit ''question'', JStr [0xD800])]]
     \<lparr>console = [], csv = [], count = 0\<rparr>
   = (\<lparr>console =
        [lit (''Error processing question 2: '' @ [CHR 0x27] @ ''utf-8'' @ [CHR 0x27]
              @ '' codec can't encode character '' @ [CHR 0x27, CHR 0x5C] @ ''ud800''
              @ [CHR 0x27] @ '' in position 10: surrogates not allowed'')],
       csv = [], count = 0\<rparr>, None)"
  by (simp add: try_body_def build_row_def bind_err_def py_get_def nested_get_def
      format_pg_array_correctly_def dict_to_list_def header_def writerow_def stream_write_def
      csv_line_def csv_field_def cell_text_def py_str_def dec_int_def dec_nat.simps
      digit_char_def error_processing_line_def encode_error_text_def first_bad_def
      bad_run_def is_surrogate_def hex4_def hex2_def lit_def code_def dquote_def
      backslash_def encodable_def)

text \<open>An element of the array that is not a mapping is not reported: the report calls
  \<^verbatim>\<open>q.get('id')\<close>, which raises again, and the exception ends the loop.\<close>

lemma process_questions_not_a_dict:
  "\<forall>kvs. q \<noteq> JObj kvs \<Longrightarrow>
   process_questions tbl (q # qs) s = (s, Some (AttributeError (type_name q) ''get''))"
  by (cases q) (simp_all add: try_body_def build_row_def bind_err_def py_get_def)

lemma array_field_ok:
  "(\<And>v. map_of kvs a = Some v \<Longrightarrow> \<not> isl (format_pg_array_correctly tbl v)) \<Longrightarrow>
   \<not> isl (bind_err (py_get (JObj kvs) a (JArr [])) (format_pg_array_correctly tbl))"
  by (cases "map_of kvs a")
     (simp_all add: py_get_JObj bind_err_def format_pg_array_correctly_def)

lemma nested_field_ok:
  "(\<And>v. map_of kvs K = Some v \<Longrightarrow> (\<exists>m. v = JObj m)) \<Longrightarrow>
   \<not> isl (nested_get (JObj kvs) K sub)"
  by (cases "map_of kvs K") (auto simp add: nested_get_absent nested_get_dict)

text \<open>
  \<^bold>\<open>C6\<close>, as stated, fails: a record may lack a nested key and still make the row
  builder raise. In the record \<^verbatim>\<open>{"id": 1, "sourceInfo": null}\<close> the key
  \<^verbatim>\<open>classification\<close> is absent, and the builder raises on \<^verbatim>\<open>sourceInfo\<close>; in
  \<^verbatim>\<open>{"options": 5}\<close> all three nested keys are absent, and the builder raises on
  \<^verbatim>\<open>options\<close>.
\<close>

theorem absent_nested_key_may_raise:
  "map_of [(lit ''id'', JInt 1), (lit ''sourceInfo'', JNull)] (lit ''classification'') = None
   \<and> build_row plain_table (JObj [(lit ''id'', JInt 1), (lit ''sourceInfo'', JNull)])
       = Inl (AttributeError ''NoneType'' ''get'')
   \<and> map_of [(lit ''options'', JInt 5)] (lit ''classification'') = None
   \<and> map_of [(lit ''options'', JInt 5)] (lit ''sourceInfo'') = None
   \<and> map_of [(lit ''options'', JInt 5)] (lit ''properties'') = None
   \<and> build_row plain_table (JObj [(lit ''options'', JInt 5)])
       = Inl (TypeError_not_iterable ''int'')"
  by (simp add: build_row_def bind_err_def py_get_def nested_get_def
      format_pg_array_correctly_def)

text \<open>
  \<^bold>\<open>C6\<close>, amended. For every record in which the key \<^verbatim>\<open>classification\<close>,
  \<^verbatim>\<open>sourceInfo\<close> or \<^verbatim>\<open>properties\<close> is absent, the lookup of each sub-field of that
  key does not raise and gives null; every row the builder returns for the record has
  null in the columns of these sub-fields; and the builder does return a row when
  nothing else in the record raises, that is when each of \<^verbatim>\<open>options\<close>,
  \<^verbatim>\<open>options_hi\<close> and \<^verbatim>\<open>tags\<close>, if present, is a value the array-literal encoder
  accepts, and each of the three nested keys, if present, is bound to a mapping.
\<close>

theorem absent_nested_key_gives_nulls:
  assumes "K \<in> set nested_keys" and "map_of kvs K = None"
  shows "(\<forall>sub. nested_get (JObj kvs) K sub = Inr JNull)
    \<and> (\<forall>row. build_row tbl (JObj kvs) = Inr row \<longrightarrow>
          (\<forall>c \<in> set (sub_fields K). cell row c = Some JNull))
    \<and> ((\<forall>a \<in> set array_keys. \<forall>v. map_of kvs a = Some v \<longrightarrow>
            \<not> isl (format_pg_array_correctly tbl v))
        \<and> (\<forall>K' \<in> set nested_keys. \<forall>v. map_of kvs K' = Some v \<longrightarrow> (\<exists>m. v = JObj m))
        \<longrightarrow> (\<exists>row. build_row tbl (JObj kvs) = Inr row))"
proof -
  have n: "\<And>sub. nested_get (JObj kvs) K sub = Inr JNull"
    using assms(2) by (rule nested_get_absent)
  have c: "\<forall>c \<in> set (sub_fields K). cell row c = Some JNull"
    if "build_row tbl (JObj kvs) = Inr row" for row
  proof -
    have cells:
      "cell row (lit ''subject'')
         = Some (projr (nested_get (JObj kvs) (lit ''classification'') (lit ''subject'')))"
      "cell row (lit ''topic'')
         = Some (projr (nested_get (JObj kvs) (lit ''classification'') (lit ''topic'')))"
      "cell row (lit ''subTopic'')
         = Some (projr (nested_get (JObj kvs) (lit ''classification'') (lit ''subTopic'')))"
      "cell row (lit ''examName'')
         = Some (projr (nested_get (JObj kvs) (lit ''sourceInfo'') (lit ''examName'')))"
      "cell row (lit ''examYear'')
         = Some (projr (nested_get (JObj kvs) (lit ''sourceInfo'') (lit ''examYear'')))"
      "cell row (lit ''examDateShift'')
         = Some (projr (nested_get (JObj kvs) (lit ''sourceInfo'') (lit ''examDateShift'')))"
      "cell row (lit ''difficulty'')
         = Some (projr (nested_get (JObj kvs) (lit ''properties'') (lit ''difficulty'')))"
      "cell row (lit ''questionType'')
         = Some (projr (nested_get (JObj kvs) (lit ''properties'') (lit ''questionType'')))"
      using that unfolding build_row_Inr_iff by (simp_all add: cell_def header_def)
    consider "K = lit ''classification''" | "K = lit ''sourceInfo''" | "K = lit ''properties''"
      using assms(1) by (auto simp add: nested_keys_def)
    then show ?thesis
    proof cases
      case 1
      then show ?thesis using n by (simp add: sub_fields_def cells)
    next
      case 2
      then show ?thesis using n by (simp add: sub_fields_def cells)
    next
      case 3
      then show ?thesis using n by (simp add: sub_fields_def cells)
    qed
  qed
  have r: "\<exists>row. build_row tbl (JObj kvs) = Inr row"
    if a: "\<forall>a \<in> set array_keys. \<forall>v. map_of kvs a = Some v \<longrightarrow>
            \<not> isl (format_pg_array_correctly tbl v)"
    and k: "\<forall>K' \<in> set nested_keys. \<forall>v. map_of kvs K' = Some v \<longrightarrow> (\<exists>m. v = JObj m)"
  proof -
    have "\<And>a. a \<in> set array_keys \<Longrightarrow>
        \<not> isl (bind_err (py_get (JObj kvs) a (JArr [])) (format_pg_array_correctly tbl))"
      using a by (intro array_field_ok) blast
    moreover have "\<And>K' sub. K' \<in> set nested_keys \<Longrightarrow> \<not> isl (nested_get (JObj kvs) K' sub)"
      using k by (intro nested_field_ok) blast
    ultimately show ?thesis
      unfolding build_row_Inr_iff by (simp add: array_keys_def nested_keys_def py_get_JObj)
  qed
  show ?thesis using n c r by blast
qed

theorem absent_nested_key_gives_nulls_witness:
  "lit ''classification'' \<in> set nested_keys
   \<and> map_of [(lit ''id'', JInt 1),
              (lit ''properties'', JObj [(lit ''difficulty'', JStr (lit ''easy''))])]
        (lit ''classification'') = None
   \<and> build_row plain_table
        (JObj [(lit ''id'', JInt 1),
               (lit ''properties'', JObj [(lit ''difficulty'', JStr (lit ''easy''))])])
      = Inr [JInt 1, JNull, JNull, JNull, JNull, JNull, JNull, JStr (lit ''easy''), JNull, JNull,
             JNull, JStr (lit ''{}''), JStr (lit ''{}''), JNull, JStr (lit ''{}''),
             JStr (lit ''{}'')]
   \<and> cell [JInt 1, JNull, JNull, JNull, JNull, JNull, JNull, JStr (lit ''easy''), JNull, JNull,
             JNull, JStr (lit ''{}''), JStr (lit ''{}''), JNull, JStr (lit ''{}''),
             JStr (lit ''{}'')] (lit ''topic'')
      = Some JNull"
proof -
  let ?kvs = "[(lit ''id'', JInt 1),
               (lit ''properties'', JObj [(lit ''difficulty'', JStr (lit ''easy''))])]"
  have a: "lit ''classification'' \<in> set nested_keys" by (simp add: nested_keys_def)
  have b: "map_of ?kvs (lit ''classification'') = None" by simp
  have c: "build_row plain_table (JObj ?kvs)
      = Inr [JInt 1, JNull, JNull, JNull, JNull, JNull, JNull, JStr (lit ''easy''), JNull, JNull,
             JNull, JStr (lit ''{}''), JStr (lit ''{}''), JNull, JStr (lit ''{}''),
             JStr (lit ''{}'')]"
    by (simp add: build_row_def bind_err_def py_get_def nested_get_def
        format_pg_array_correctly_def dict_to_list_def header_def lit_append_fold)
  show ?thesis
    using absent_nested_key_gives_nulls [OF a b, of plain_table] a b c
    by (simp add: cell_def header_def)
qed

section \<open>Properties of the nested-object encoder\<close>

text \<open>
  \<^bold>\<open>C3\<close>, as stated, fails for a null: for the record \<^verbatim>\<open>{"explanation": null}\<close> the
  lookup returns \<^verbatim>\<open>None\<close>, the default applies to an absent key only, and the
  encoder writes \<^verbatim>\<open>null\<close>, not \<^verbatim>\<open>{}\<close>.
\<close>

theorem null_explanation_is_not_empty_object:
  "build_row plain_table (JObj [(lit ''explanation'', JNull)]) =
     Inr [JNull, JNull, JNull, JNull, JNull, JNull, JNull, JNull, JNull, JNull, JNull,
          JStr (lit ''{}''), JStr (lit ''{}''), JNull, JStr (lit ''{}''), JStr (lit ''null'')]
   \<and> json_dumps JNull \<noteq> lit ''{}''"
  by (simp add: build_row_def bind_err_def py_get_def nested_get_def
      format_pg_array_correctly_def dict_to_list_def header_def)

lemma json_dumps_x1:
  "json_dumps (JObj [(lit ''x'', JInt 1)]) = lit ([CHR ''{'', CHR 0x22, CHR ''x'', CHR 0x22] @ '': 1}'')"
  by (simp add: dumps_str_def dumps_char_def dec_int_def dec_nat.simps digit_char_def
      dquote_def backslash_def lit_def code_def)

lemma json_loads_x1:
  "json_loads (lit ([CHR ''{'', CHR 0x22, CHR ''x'', CHR 0x22] @ '': 1}''))
     = Some (JObj [(lit ''x'', JInt 1)])"
  by (simp add: json_loads_def skip_ws_def is_ws_def is_digit_def read_int_def
      dict_of_pairs_def dquote_def backslash_def lit_def code_def)

text \<open>
  \<^bold>\<open>C3\<close>, amended. For a record without the key \<^verbatim>\<open>explanation\<close> the encoder writes
  \<^verbatim>\<open>{}\<close>; for a null \<^verbatim>\<open>explanation\<close> it writes \<^verbatim>\<open>null\<close>; for the mapping
  \<^verbatim>\<open>{"x":1}\<close> it writes \<^verbatim>\<open>{"x": 1}\<close>, a JSON text that parses back to the
  mapping. In every row the cell \<^verbatim>\<open>explanation\<close> is the JSON text of the value of
  the field, or of the empty mapping when the key is absent.
\<close>

theorem explanation_encoding:
  "build_row tbl (JObj []) =
     Inr [JNull, JNull, JNull, JNull, JNull, JNull, JNull, JNull, JNull, JNull, JNull,
          JStr (lit ''{}''), JStr (lit ''{}''), JNull, JStr (lit ''{}''), JStr (lit ''{}'')]
   \<and> build_row tbl (JObj [(lit ''explanation'', JNull)]) =
     Inr [JNull, JNull, JNull, JNull, JNull, JNull, JNull, JNull, JNull, JNull, JNull,
          JStr (lit ''{}''), JStr (lit ''{}''), JNull, JStr (lit ''{}''), JStr (lit ''null'')]
   \<and> build_row tbl (JObj [(lit ''explanation'', JObj [(lit ''x'', JInt 1)])]) =
     Inr [JNull, JNull, JNull, JNull, JNull, JNull, JNull, JNull, JNull, JNull, JNull,
          JStr (lit ''{}''), JStr (lit ''{}''), JNull, JStr (lit ''{}''),
          JStr (lit ([CHR ''{'', CHR 0x22, CHR ''x'', CHR 0x22] @ '': 1}''))]
   \<and> json_loads (lit ([CHR ''{'', CHR 0x22, CHR ''x'', CHR 0x22] @ '': 1}''))
       = Some (JObj [(lit ''x'', JInt 1)])
   \<and> (\<forall>kvs row. build_row tbl (JObj kvs) = Inr row \<longrightarrow>
         cell row (lit ''explanation'') =
           Some (JStr (json_dumps
             (case map_of kvs (lit ''explanation'') of None \<Rightarrow> JObj [] | Some v \<Rightarrow> v))))"
proof -
  have a: "build_row tbl (JObj []) =
     Inr [JNull, JNull, JNull, JNull, JNull, JNull, JNull, JNull, JNull, JNull, JNull,
          JStr (lit ''{}''), JStr (lit ''{}''), JNull, JStr (lit ''{}''), JStr (lit ''{}'')]"
    by (simp add: build_row_def bind_err_def py_get_def nested_get_def
      format_pg_array_correctly_def dict_to_list_def header_def lit_append_fold)
  have b: "build_row tbl (JObj [(lit ''explanation'', JNull)]) =
     Inr [JNull, JNull, JNull, JNull, JNull, JNull, JNull, JNull, JNull, JNull, JNull,
          JStr (lit ''{}''), JStr (lit ''{}''), JNull, JStr (lit ''{}''), JStr (lit ''null'')]"
    by (simp add: build_row_def bind_err_def py_get_def nested_get_def
      format_pg_array_correctly_def dict_to_list_def header_def)
  have c: "build_row tbl (JObj [(lit ''explanation'', JObj [(lit ''x'', JInt 1)])]) =
     Inr [JNull, JNull, JNull, JNull, JNull, JNull, JNull, JNull, JNull, JNull, JNull,
          JStr (lit ''{}''), JStr (lit ''{}''), JNull, JStr (lit ''{}''),
          JStr (lit ([CHR ''{'', CHR 0x22, CHR ''x'', CHR 0x22] @ '': 1}''))]"
    unfolding json_dumps_x1 [symmetric]
    by (simp add: build_row_def bind_err_def py_get_def nested_get_def
      format_pg_array_correctly_def dict_to_list_def header_def del: json_dumps.simps)
  have d: "cell row (lit ''explanation'') =
           Some (JStr (json_dumps
             (case map_of kvs (lit ''explanation'') of None \<Rightarrow> JObj [] | Some v \<Rightarrow> v)))"
    if "build_row tbl (JObj kvs) = Inr row" for kvs row
    using that unfolding build_row_Inr_iff by (simp add: cell_def header_def py_get_JObj)
  show ?thesis using a b c d json_loads_x1 by blast
qed

theorem explanation_encoding_witness:
  "build_row plain_table (JObj [(lit ''explanation'', JNull)]) =
     Inr [JNull, JNull, JNull, JNull, JNull, JNull, JNull, JNull, JNull, JNull, JNull,
          JStr (lit ''{}''), JStr (lit ''{}''), JNull, JStr (lit ''{}''), JStr (lit ''null'')]
   \<and> cell [JNull, JNull, JNull, JNull, JNull, JNull, JNull, JNull, JNull, JNull, JNull,
          JStr (lit ''{}''), JStr (lit ''{}''), JNull, JStr (lit ''{}''), JStr (lit ''null'')]
        (lit ''explanation'')
       = Some (JStr (lit ''null''))"
proof -
  let ?row = "[JNull, JNull, JNull, JNull, JNull, JNull, JNull, JNull, JNull, JNull, JNull,
          JStr (lit ''{}''), JStr (lit ''{}''), JNull, JStr (lit ''{}''), JStr (lit ''null'')]"
  have b: "build_row plain_table (JObj [(lit ''explanation'', JNull)]) = Inr ?row"
    by (simp add: build_row_def bind_err_def py_get_def nested_get_def
      format_pg_array_correctly_def dict_to_list_def header_def)
  have "cell ?row (lit ''explanation'') =
      Some (JStr (json_dumps
        (case map_of [(lit ''explanation'', JNull)] (lit ''explanation'') of
           None \<Rightarrow> JObj [] | Some v \<Rightarrow> v)))"
    using explanation_encoding [of plain_table] b by blast
  then show ?thesis using b by simp
qed

end
